theory Spec2Isabelle
  imports Main "HOL-Library.AList" "HOL-Library.Sublist" "HOL-Library.Char_ord"
    "HOL-Library.List_Lexorder"
begin

section \<open>Values shared by the crawler's modules\<close>

text \<open>
  Python strings are modelled as \<^typ>\<open>string\<close>, Python integers as \<^typ>\<open>int\<close>.
  A Python \<open>dict\<close> with string keys is an association list read with \<^const>\<open>map_of\<close> and
  written with \<^const>\<open>AList.update\<close> (an existing key keeps its position, a new key goes
  last, as in Python); a Python \<open>set\<close> is a HOL set.

  Values whose type the source leaves open (\<open>Dict[str, Any]\<close>, the entries of the asset
  lists, everything read back from a snapshot) are JSON trees. The crawl state holds no
  floating point number, so JSON numbers are integers here.
\<close>

datatype json =
    JNull
  | JBool bool
  | JInt int
  | JStr string
  | JArr "json list"
  | JObj "(string \<times> json) list"

type_synonym pydict = "(string \<times> json) list"

text \<open>The exceptions the modelled code raises or lets through.\<close>

datatype error =
    ValueError string
  | KeyError string
  | TypeError
  | AttributeError
  | FileNotFoundError
  | RuntimeError string

definition bind_result :: "error + 'a \<Rightarrow> ('a \<Rightarrow> error + 'b) \<Rightarrow> error + 'b" where
  "bind_result r f = (case r of Inl e \<Rightarrow> Inl e | Inr x \<Rightarrow> f x)"

fun map_result :: "('a \<Rightarrow> error + 'b) \<Rightarrow> 'a list \<Rightarrow> error + 'b list" where
  "map_result f [] = Inr []"
| "map_result f (x # xs) =
     bind_result (f x) (\<lambda>y. bind_result (map_result f xs) (\<lambda>ys. Inr (y # ys)))"

subsection \<open>Python's string and value primitives\<close>

text \<open>
  A \<^typ>\<open>char\<close> stands for a code point below 256. \<open>str.isspace\<close> holds there for the
  characters 9 to 13, 28 to 32, 133 and 160; \<open>str.lower\<close> moves the ASCII capitals and
  the Latin-1 capitals (192 to 222 except 215) up by 32.
\<close>

definition is_space :: "char \<Rightarrow> bool" where
  "is_space c =
     (let n = (of_char c :: nat)
      in (9 \<le> n \<and> n \<le> 13) \<or> (28 \<le> n \<and> n \<le> 32) \<or> n = 133 \<or> n = 160)"

definition strip :: "string \<Rightarrow> string" where
  "strip s = rev (dropWhile is_space (rev (dropWhile is_space s)))"

definition lower_char :: "char \<Rightarrow> char" where
  "lower_char c =
     (let n = (of_char c :: nat)
      in if (65 \<le> n \<and> n \<le> 90) \<or> (192 \<le> n \<and> n \<le> 222 \<and> n \<noteq> 215)
         then char_of (n + 32) else c)"

definition lower :: "string \<Rightarrow> string" where
  "lower s = map lower_char s"

definition startswith :: "string \<Rightarrow> string \<Rightarrow> bool" where
  "startswith s p = prefix p s"

definition endswith :: "string \<Rightarrow> string \<Rightarrow> bool" where
  "endswith s p = suffix p s"

text \<open>Truth value of a Python object, \<open>a or b\<close>, and the three ways of reading a dict.\<close>

definition truthy :: "json \<Rightarrow> bool" where
  "truthy j =
     (case j of
        JNull \<Rightarrow> False | JBool b \<Rightarrow> b | JInt n \<Rightarrow> n \<noteq> 0 | JStr s \<Rightarrow> s \<noteq> []
      | JArr xs \<Rightarrow> xs \<noteq> [] | JObj d \<Rightarrow> d \<noteq> [])"

definition py_or :: "json \<Rightarrow> json \<Rightarrow> json" where
  "py_or a b = (if truthy a then a else b)"

definition dict_get :: "pydict \<Rightarrow> string \<Rightarrow> json" where
  "dict_get d k = (case map_of d k of None \<Rightarrow> JNull | Some v \<Rightarrow> v)"

definition dict_get_default :: "pydict \<Rightarrow> string \<Rightarrow> json \<Rightarrow> json" where
  "dict_get_default d k dflt = (case map_of d k of None \<Rightarrow> dflt | Some v \<Rightarrow> v)"

definition dict_item :: "pydict \<Rightarrow> string \<Rightarrow> error + json" where
  "dict_item d k = (case map_of d k of None \<Rightarrow> Inl (KeyError k) | Some v \<Rightarrow> Inr v)"

text \<open>\<open>list(x)\<close>: the elements of a list, the characters of a string, the keys of a dict.\<close>

definition py_list :: "json \<Rightarrow> error + json list" where
  "py_list j =
     (case j of
        JArr xs \<Rightarrow> Inr xs
      | JStr s \<Rightarrow> Inr (map (\<lambda>c. JStr [c]) s)
      | JObj d \<Rightarrow> Inr (map (\<lambda>kv. JStr (fst kv)) d)
      | _ \<Rightarrow> Inl TypeError)"

text \<open>
  \<open>int(x)\<close>. Of a string it reads an optional sign and decimal digits, with single
  underscores allowed between digits, and raises \<open>ValueError\<close> otherwise. The blanks it
  skips around the number are fewer than those of \<open>str.strip\<close>: the characters 28 to 31
  are not among them.
\<close>

definition digit_of :: "char \<Rightarrow> int option" where
  "digit_of c =
     (let n = (of_char c :: nat) in if 48 \<le> n \<and> n \<le> 57 then Some (int n - 48) else None)"

fun digits_value :: "int \<Rightarrow> string \<Rightarrow> int option" where
  "digits_value acc [] = Some acc"
| "digits_value acc [c] = map_option (\<lambda>d. 10 * acc + d) (digit_of c)"
| "digits_value acc (c # c' # cs) =
     (if c = CHR ''_''
      then (case digit_of c' of None \<Rightarrow> None | Some d \<Rightarrow> digits_value (10 * acc + d) cs)
      else (case digit_of c of None \<Rightarrow> None | Some d \<Rightarrow> digits_value (10 * acc + d) (c' # cs)))"

definition int_space :: "char \<Rightarrow> bool" where
  "int_space c =
     (let n = (of_char c :: nat) in (9 \<le> n \<and> n \<le> 13) \<or> n = 32 \<or> n = 133 \<or> n = 160)"

definition unsigned_value :: "string \<Rightarrow> int option" where
  "unsigned_value s =
     (case s of
        [] \<Rightarrow> None
      | c # cs \<Rightarrow> (case digit_of c of None \<Rightarrow> None | Some d \<Rightarrow> digits_value d cs))"

definition int_of_str :: "string \<Rightarrow> int option" where
  "int_of_str s =
     (case rev (dropWhile int_space (rev (dropWhile int_space s))) of
        [] \<Rightarrow> None
      | c # cs \<Rightarrow>
          if c = CHR ''-'' then map_option uminus (unsigned_value cs)
          else if c = CHR ''+'' then unsigned_value cs
          else unsigned_value (c # cs))"

definition py_int :: "json \<Rightarrow> error + int" where
  "py_int j =
     (case j of
        JInt n \<Rightarrow> Inr n
      | JBool b \<Rightarrow> Inr (if b then 1 else 0)
      | JStr s \<Rightarrow> (case int_of_str s of
                     None \<Rightarrow> Inl (ValueError ''invalid literal for int()'')
                   | Some n \<Rightarrow> Inr n)
      | _ \<Rightarrow> Inl TypeError)"

text \<open>
  \<open>s.split(c, 1)\<close> for a character that occurs in \<open>s\<close>: the text before and the text
  after its first occurrence.
\<close>

definition split_once :: "char \<Rightarrow> string \<Rightarrow> string \<times> string" where
  "split_once c s = (takeWhile (\<lambda>x. x \<noteq> c) s, drop 1 (dropWhile (\<lambda>x. x \<noteq> c) s))"

text \<open>\<open>s.split(c)\<close> and \<open>c.join(parts)\<close>.\<close>

fun split_on :: "char \<Rightarrow> string \<Rightarrow> string list" where
  "split_on c [] = [[]]"
| "split_on c (x # xs) =
     (if x = c then [] # split_on c xs
      else (case split_on c xs of
              [] \<Rightarrow> [[x]]
            | p # ps \<Rightarrow> (x # p) # ps))"

fun join_with :: "char \<Rightarrow> string list \<Rightarrow> string" where
  "join_with c [] = []"
| "join_with c [p] = p"
| "join_with c (p # q # ps) = p @ c # join_with c (q # ps)"

text \<open>\<open>s.rstrip(c)\<close> for a single character \<open>c\<close>.\<close>

definition rstrip_char :: "char \<Rightarrow> string \<Rightarrow> string" where
  "rstrip_char c s = rev (dropWhile (\<lambda>x. x = c) (rev s))"

section \<open>The world outside the program\<close>

text \<open>
  The crawler calls Python's \<open>urllib.parse\<close>, \<open>re\<close>, \<open>json\<close> and \<open>urllib.robotparser\<close> and
  the package \<open>tldextract\<close>, none of which is part of the repository. The functions of the
  repository take them as parameters. A URL library parses a URL into its six components
  (or raises \<open>ValueError\<close>), puts them together again and joins a base with a reference.
\<close>

record parse_result =
  u_scheme :: string
  u_netloc :: string
  u_path :: string
  u_params :: string
  u_query :: string
  u_fragment :: string

record url_lib =
  urljoin :: "string \<Rightarrow> string \<Rightarrow> error + string"
  urlparse :: "string \<Rightarrow> error + parse_result"
  urlunparse :: "parse_result \<Rightarrow> string"

text \<open>
  \<open>re.search\<close>: \<open>re_search pattern value\<close> is \<open>Inr b\<close> when the pattern compiles and \<open>b\<close>
  says whether it matches somewhere in \<open>value\<close>, and \<open>Inl ()\<close> when compiling raises
  \<open>re.error\<close>.
\<close>

type_synonym regex_engine = "string \<Rightarrow> string \<Rightarrow> unit + bool"

text \<open>
  A robots policy is \<open>can_fetch(user_agent, url)\<close> of a \<open>RobotFileParser\<close> whose \<open>read\<close> has
  returned. Reading \<open>robots.txt\<close> from a URL gives such a policy, or \<open>None\<close> when \<open>set_url\<close>
  or \<open>read\<close> raises. \<open>tldextract\<close> splits a host into its registrable domain and its
  public suffix.
\<close>

type_synonym robots_policy = "string \<Rightarrow> string \<Rightarrow> bool"

record env =
  env_lib :: url_lib
  env_re :: regex_engine
  env_extract :: "string \<Rightarrow> string \<times> string"
  env_fetch_robots :: "string \<Rightarrow> robots_policy option"

subsection \<open>A model of \<open>RobotFileParser.read\<close>\<close>

text \<open>
  What happens when \<open>read\<close> opens the URL of a \<open>robots.txt\<close>: an exception that is no
  \<open>HTTPError\<close> is raised (the host is not reached, say, or the body is not UTF-8),
  \<open>HTTPError\<close> is raised with a status code, or a body is returned, given here by the
  answers of \<open>can_fetch\<close> once \<open>parse\<close> has read it. \<open>read\<close> of CPython 3.11 lets the
  first through and catches the second: after 401 or 403 the parser disallows
  everything, after another code from 400 to 499 it allows everything, and after any
  other code it has read nothing, which makes \<open>can_fetch\<close> answer no.
\<close>

datatype robots_response =
    ReadRaises
  | HttpError nat
  | RobotsTxt robots_policy

definition robot_file_parser :: "(string \<Rightarrow> robots_response) \<Rightarrow> string \<Rightarrow> robots_policy option" where
  "robot_file_parser urlopen robots_url =
     (case urlopen robots_url of
        ReadRaises \<Rightarrow> None
      | HttpError code \<Rightarrow>
          Some (\<lambda>useragent u. if code = 401 \<or> code = 403 then False
                               else 400 \<le> code \<and> code < 500)
      | RobotsTxt rules \<Rightarrow> Some rules)"

subsection \<open>A model of \<open>urllib.parse\<close>\<close>

text \<open>
  For the examples a URL library is needed that can be run. This one follows
  \<open>urlsplit\<close>, \<open>urlparse\<close>, \<open>urlunparse\<close> and \<open>urljoin\<close> of CPython 3.11 step by step. What
  CPython leaves to other modules is a parameter: \<open>bracket_ok\<close> says whether the text
  between \<open>[\<close> and \<open>]\<close> in an authority is a valid IPv6 or IPvFuture address. The check
  of the authority under NFKC normalisation returns at once for an ASCII authority, as
  all the authorities of the examples are, and is left out.
\<close>

definition uses_relative :: "string list" where
  "uses_relative = ['''', ''ftp'', ''http'', ''gopher'', ''nntp'', ''imap'', ''wais'', ''file'',
     ''https'', ''shttp'', ''mms'', ''prospero'', ''rtsp'', ''rtspu'', ''sftp'', ''svn'',
     ''svn+ssh'', ''ws'', ''wss'']"

definition uses_netloc :: "string list" where
  "uses_netloc = ['''', ''ftp'', ''http'', ''gopher'', ''nntp'', ''telnet'', ''imap'', ''wais'',
     ''file'', ''mms'', ''https'', ''shttp'', ''snews'', ''prospero'', ''rtsp'', ''rtspu'',
     ''rsync'', ''svn'', ''svn+ssh'', ''sftp'', ''nfs'', ''git'', ''git+ssh'', ''ws'', ''wss'']"

definition uses_params :: "string list" where
  "uses_params = ['''', ''ftp'', ''hdl'', ''prospero'', ''http'', ''imap'', ''https'', ''shttp'',
     ''rtsp'', ''rtspu'', ''sip'', ''sips'', ''mms'', ''sftp'', ''tel'']"

definition ascii_alpha :: "char \<Rightarrow> bool" where
  "ascii_alpha c = (let n = (of_char c :: nat) in (65 \<le> n \<and> n \<le> 90) \<or> (97 \<le> n \<and> n \<le> 122))"

definition scheme_char :: "char \<Rightarrow> bool" where
  "scheme_char c =
     (let n = (of_char c :: nat)
      in ascii_alpha c \<or> (48 \<le> n \<and> n \<le> 57) \<or> c = CHR ''+'' \<or> c = CHR ''-'' \<or> c = CHR ''.'')"

definition c0_control_or_space :: "char \<Rightarrow> bool" where
  "c0_control_or_space c = ((of_char c :: nat) \<le> 32)"

definition unsafe_url_byte :: "char \<Rightarrow> bool" where
  "unsafe_url_byte c = ((of_char c :: nat) \<in> {9, 10, 13})"

definition urlsplit ::
  "(string \<Rightarrow> bool) \<Rightarrow> string \<Rightarrow> string \<Rightarrow> error + (string \<times> string \<times> string \<times> string \<times> string)"
where
  "urlsplit bracket_ok url0 scheme0 =
     (let url1 = filter (\<lambda>c. \<not> unsafe_url_byte c) (dropWhile c0_control_or_space url0);
          scheme1 = filter (\<lambda>c. \<not> unsafe_url_byte c)
                      (rev (dropWhile c0_control_or_space
                         (rev (dropWhile c0_control_or_space scheme0))));
          pre = takeWhile (\<lambda>c. c \<noteq> CHR '':'') url1;
          has_scheme = (CHR '':'' \<in> set url1 \<and> pre \<noteq> [] \<and> ascii_alpha (hd pre)
                        \<and> list_all scheme_char pre);
          scheme = (if has_scheme then lower pre else scheme1);
          url2 = (if has_scheme then snd (split_once CHR '':'' url1) else url1);
          has_netloc = (take 2 url2 = ''//'');
          is_delim = (\<lambda>c. c = CHR ''/'' \<or> c = CHR ''?'' \<or> c = CHR ''#'');
          netloc = (if has_netloc then takeWhile (\<lambda>c. \<not> is_delim c) (drop 2 url2) else []);
          url3 = (if has_netloc then dropWhile (\<lambda>c. \<not> is_delim c) (drop 2 url2) else url2);
          lb = (CHR ''['' \<in> set netloc);
          rb = (CHR '']'' \<in> set netloc)
      in if has_netloc \<and> lb \<noteq> rb then Inl (ValueError ''Invalid IPv6 URL'')
         else if has_netloc \<and> lb \<and> rb
                 \<and> \<not> bracket_ok (fst (split_once CHR '']'' (snd (split_once CHR ''['' netloc))))
           then Inl (ValueError ''Invalid IPv6 URL'')
         else
           let fragment = (if CHR ''#'' \<in> set url3 then snd (split_once CHR ''#'' url3) else []);
               url4 = (if CHR ''#'' \<in> set url3 then fst (split_once CHR ''#'' url3) else url3);
               query = (if CHR ''?'' \<in> set url4 then snd (split_once CHR ''?'' url4) else []);
               url5 = (if CHR ''?'' \<in> set url4 then fst (split_once CHR ''?'' url4) else url4)
           in Inr (scheme, netloc, url5, query, fragment))"

definition splitparams :: "string \<Rightarrow> string \<times> string" where
  "splitparams url =
     (if CHR ''/'' \<in> set url
      then let seg = rev (takeWhile (\<lambda>c. c \<noteq> CHR ''/'') (rev url));
               pre = take (length url - length seg) url
           in if CHR '';'' \<in> set seg
              then (pre @ fst (split_once CHR '';'' seg), snd (split_once CHR '';'' seg))
              else (url, [])
      else split_once CHR '';'' url)"

definition py_urlparse :: "(string \<Rightarrow> bool) \<Rightarrow> string \<Rightarrow> string \<Rightarrow> error + parse_result" where
  "py_urlparse bracket_ok url scheme0 =
     bind_result (urlsplit bracket_ok url scheme0)
       (\<lambda>(scheme, netloc, p, query, fragment).
          let sp = (if scheme \<in> set uses_params \<and> CHR '';'' \<in> set p then splitparams p else (p, []))
          in Inr \<lparr>u_scheme = scheme, u_netloc = netloc, u_path = fst sp, u_params = snd sp,
                  u_query = query, u_fragment = fragment\<rparr>)"

definition py_urlunparse :: "parse_result \<Rightarrow> string" where
  "py_urlunparse p =
     (let url0 = (if u_params p \<noteq> [] then u_path p @ '';'' @ u_params p else u_path p);
          url1 = (if u_netloc p \<noteq> []
                     \<or> (u_scheme p \<noteq> [] \<and> u_scheme p \<in> set uses_netloc \<and> take 2 url0 \<noteq> ''//'')
                  then ''//'' @ u_netloc p
                       @ (if url0 \<noteq> [] \<and> take 1 url0 \<noteq> ''/'' then ''/'' @ url0 else url0)
                  else url0);
          url2 = (if u_scheme p \<noteq> [] then u_scheme p @ '':'' @ url1 else url1);
          url3 = (if u_query p \<noteq> [] then url2 @ ''?'' @ u_query p else url2)
      in if u_fragment p \<noteq> [] then url3 @ ''#'' @ u_fragment p else url3)"

text \<open>The loop of \<open>urljoin\<close> that resolves \<open>.\<close> and \<open>..\<close> segments.\<close>

fun resolve_segments :: "string list \<Rightarrow> string list \<Rightarrow> string list" where
  "resolve_segments resolved [] = resolved"
| "resolve_segments resolved (seg # segs) =
     (if seg = ''..'' then resolve_segments (butlast resolved) segs
      else if seg = ''.'' then resolve_segments resolved segs
      else resolve_segments (resolved @ [seg]) segs)"

definition py_urljoin :: "(string \<Rightarrow> bool) \<Rightarrow> string \<Rightarrow> string \<Rightarrow> error + string" where
  "py_urljoin bracket_ok base url =
     (if base = [] then Inr url
      else if url = [] then Inr base
      else
        bind_result (py_urlparse bracket_ok base []) (\<lambda>b.
        bind_result (py_urlparse bracket_ok url (u_scheme b)) (\<lambda>p.
          if u_scheme p \<noteq> u_scheme b \<or> u_scheme p \<notin> set uses_relative then Inr url
          else if u_scheme p \<in> set uses_netloc \<and> u_netloc p \<noteq> [] then Inr (py_urlunparse p)
          else
            let p1 = (if u_scheme p \<in> set uses_netloc then p\<lparr>u_netloc := u_netloc b\<rparr> else p)
            in if u_path p1 = [] \<and> u_params p1 = []
               then Inr (py_urlunparse
                      (p1\<lparr>u_path := u_path b, u_params := u_params b,
                          u_query := (if u_query p1 = [] then u_query b else u_query p1)\<rparr>))
               else
                 let base_parts0 = split_on CHR ''/'' (u_path b);
                     base_parts = (if last base_parts0 \<noteq> [] then butlast base_parts0
                                   else base_parts0);
                     segments =
                       (if take 1 (u_path p1) = ''/'' then split_on CHR ''/'' (u_path p1)
                        else let segs = base_parts @ split_on CHR ''/'' (u_path p1)
                             in take 1 segs
                                @ filter (\<lambda>s. s \<noteq> []) (butlast (drop 1 segs))
                                @ (if length segs \<ge> 2 then [last segs] else []));
                     resolved0 = resolve_segments [] segments;
                     resolved = (if last segments = ''.'' \<or> last segments = ''..''
                                 then resolved0 @ [[]] else resolved0);
                     joined = join_with CHR ''/'' resolved
                 in Inr (py_urlunparse
                           (p1\<lparr>u_path := (if joined = [] then ''/'' else joined)\<rparr>)))))"

definition cpython_urllib :: "(string \<Rightarrow> bool) \<Rightarrow> url_lib" where
  "cpython_urllib bracket_ok =
     \<lparr>urljoin = py_urljoin bracket_ok,
      urlparse = (\<lambda>url. py_urlparse bracket_ok url []),
      urlunparse = py_urlunparse\<rparr>"

section \<open>\<open>scraper/utils.py\<close>\<close>

text \<open>\<open>pattern in value\<close>: the substring test of Python strings.\<close>

fun contains :: "string \<Rightarrow> string \<Rightarrow> bool" where
  "contains p [] = (p = [])"
| "contains p (c # cs) = (prefix p (c # cs) \<or> contains p cs)"

fun match_patterns :: "regex_engine \<Rightarrow> string \<Rightarrow> string list \<Rightarrow> bool" where
  "match_patterns re_search v [] = False"
| "match_patterns re_search v (pattern # patterns) =
     (if pattern = [] then match_patterns re_search v patterns
      else (case re_search pattern v of
              Inr True \<Rightarrow> True
            | Inr False \<Rightarrow> match_patterns re_search v patterns
            | Inl _ \<Rightarrow> (if contains pattern v then True
                        else match_patterns re_search v patterns)))"

definition normalize_url :: "url_lib \<Rightarrow> string \<Rightarrow> string \<Rightarrow> error + string option" where
  "normalize_url L base href0 =
     (if href0 = [] then Inr None
      else
        let href = strip href0
        in if startswith href ''mailto:'' \<or> startswith href ''javascript:'' then Inr None
           else
             bind_result (urljoin L base href) (\<lambda>joined.
             bind_result (urlparse L joined) (\<lambda>parsed.
               if u_scheme parsed \<noteq> ''http'' \<and> u_scheme parsed \<noteq> ''https'' then Inr None
               else
                 let clean = parsed\<lparr>u_fragment := []\<rparr>;
                     normalized = urlunparse L clean
                 in Inr (Some (if u_path clean \<noteq> ''/'' then rstrip_char CHR ''/'' normalized
                               else normalized)))))"

definition extract_domain :: "env \<Rightarrow> string \<Rightarrow> error + string" where
  "extract_domain E u =
     bind_result (urlparse (env_lib E) u) (\<lambda>parsed.
       let ext = env_extract E (u_netloc parsed)
       in Inr (join_with CHR ''.'' (filter (\<lambda>part. part \<noteq> []) [fst ext, snd ext])))"

definition same_registrable_domain :: "env \<Rightarrow> string \<Rightarrow> string \<Rightarrow> error + bool" where
  "same_registrable_domain E u reference =
     bind_result (extract_domain E u) (\<lambda>a.
     bind_result (extract_domain E reference) (\<lambda>b. Inr (a = b)))"

text \<open>
  \<open>match_extension\<close>. \<open>sorted(set(normalized), key=len, reverse=True)\<close> puts the longest
  extensions first; two extensions of one length cannot both end the path, so the order
  among them, which Python leaves to the set, does not show in the result.
\<close>

definition match_extension :: "url_lib \<Rightarrow> string \<Rightarrow> string list \<Rightarrow> error + string option" where
  "match_extension L u extensions =
     bind_result (urlparse L u) (\<lambda>parsed.
       let p = lower (u_path parsed);
           normalized = map lower (filter (\<lambda>ext. ext \<noteq> []) extensions)
       in Inr (find (\<lambda>ext. endswith p ext)
                 (rev (sort_key length (sorted_list_of_set (set normalized))))))"

section \<open>\<open>scraper/robots.py\<close>\<close>

text \<open>
  The attributes of a \<open>RobotsHandler\<close>. The method \<open>_parser_for\<close> is wrapped in
  \<open>lru_cache(maxsize=32)\<close> where the class is defined, so there is one cache in the
  process, shared by all handlers, and an entry is keyed by the arguments of the call,
  \<open>(self, url)\<close>. The class defines neither \<open>__eq__\<close> nor \<open>__hash__\<close>, so \<open>self\<close> counts by
  the identity of the object: a \<open>handler_ref\<close>.
\<close>

record robots_handler =
  user_agent :: string
  respect :: bool

definition RobotsHandler :: "string \<Rightarrow> bool \<Rightarrow> robots_handler" where
  "RobotsHandler ua r = \<lparr>user_agent = ua, respect = r\<rparr>"

type_synonym handler_ref = nat

text \<open>
  The cache is the list of its entries, least recently used first. A hit moves the entry
  to the end; a miss runs the body and appends the result, and when the cache holds 32
  entries already the first entry is dropped. An exception raised by the body leaves the
  cache as it is. \<open>robots_fetched\<close> lists the \<open>robots.txt\<close> URLs read so far.
\<close>

record parser_cache =
  cache_entries :: "((handler_ref \<times> string) \<times> robots_policy option) list"
  robots_fetched :: "string list"

text \<open>The cache of a process that has asked about no URL yet.\<close>

definition empty_parser_cache :: parser_cache where
  "empty_parser_cache = \<lparr>cache_entries = [], robots_fetched = []\<rparr>"

definition parser_for ::
  "env \<Rightarrow> handler_ref \<Rightarrow> string \<Rightarrow> parser_cache
   \<Rightarrow> error + (robots_policy option \<times> parser_cache)"
where
  "parser_for E self_ref u m =
     (case map_of (cache_entries m) (self_ref, u) of
        Some parser \<Rightarrow>
          Inr (parser,
               m\<lparr>cache_entries := filter (\<lambda>kv. fst kv \<noteq> (self_ref, u)) (cache_entries m)
                                   @ [((self_ref, u), parser)]\<rparr>)
      | None \<Rightarrow>
          bind_result (urlparse (env_lib E) u) (\<lambda>parsed.
          bind_result (urljoin (env_lib E) (u_scheme parsed @ ''://'' @ u_netloc parsed)
                         ''/robots.txt'') (\<lambda>robots_url.
            let parser = env_fetch_robots E robots_url;
                kept = (if length (cache_entries m) \<ge> 32 then tl (cache_entries m)
                        else cache_entries m)
            in Inr (parser,
                    m\<lparr>cache_entries := kept @ [((self_ref, u), parser)],
                      robots_fetched := robots_fetched m @ [robots_url]\<rparr>))))"

definition is_allowed ::
  "env \<Rightarrow> handler_ref \<Rightarrow> robots_handler \<Rightarrow> string \<Rightarrow> parser_cache
   \<Rightarrow> error + (bool \<times> parser_cache)"
where
  "is_allowed E self_ref h u m =
     (if \<not> respect h then Inr (True, m)
      else bind_result (parser_for E self_ref u m)
             (\<lambda>(parser, m'). case parser of
                                None \<Rightarrow> Inr (True, m')
                              | Some policy \<Rightarrow> Inr (policy (user_agent h) u, m')))"

section \<open>\<open>scraper/state.py\<close>: page records and the crawl state\<close>

record page_record =
  page_url :: string
  page_depth :: int
  page_title :: "string option"
  page_assets :: "pydict list"
  page_errors :: "string list"
  page_referrers :: "string list"
  page_last_status :: "string option"

text \<open>\<open>PageRecord(url=url, depth=depth)\<close>: the dataclass defaults.\<close>

definition PageRecord :: "string \<Rightarrow> int \<Rightarrow> page_record" where
  "PageRecord u d =
     \<lparr>page_url = u, page_depth = d, page_title = None, page_assets = [],
      page_errors = [], page_referrers = [], page_last_status = None\<rparr>"

record crawl_state =
  start_url :: string
  max_depth :: int
  respect_robots :: bool
  same_domain_only :: bool
  include_patterns :: "string list"
  exclude_patterns :: "string list"
  target_extensions :: "string list"
  frontier :: "(string \<times> int) list"
  visited :: "string set"
  asset_cache :: "(string \<times> json) list"
  pages :: "(string \<times> page_record) list"
  skipped :: "json list"
  started_at :: "string option"
  finished_at :: "string option"
  referrers :: "(string \<times> string list) list"
  asset_manifest :: "(string \<times> json) list"

text \<open>\<open>CrawlState(start_url=..., max_depth=..., ...)\<close> with every other field at its default.\<close>

definition CrawlState ::
  "string \<Rightarrow> int \<Rightarrow> bool \<Rightarrow> bool \<Rightarrow> string list \<Rightarrow> string list \<Rightarrow> string list \<Rightarrow> crawl_state"
where
  "CrawlState su md rr sd inc exc exts =
     \<lparr>start_url = su, max_depth = md, respect_robots = rr, same_domain_only = sd,
      include_patterns = inc, exclude_patterns = exc, target_extensions = exts,
      frontier = [], visited = {}, asset_cache = [], pages = [], skipped = [],
      started_at = None, finished_at = None, referrers = [], asset_manifest = []\<rparr>"

subsection \<open>Frontier\<close>

definition enqueue :: "string \<Rightarrow> int \<Rightarrow> crawl_state \<Rightarrow> crawl_state" where
  "enqueue u d s = s\<lparr>frontier := frontier s @ [(u, d)]\<rparr>"

definition dequeue :: "crawl_state \<Rightarrow> (string \<times> int) option \<times> crawl_state" where
  "dequeue s =
     (case frontier s of
        [] \<Rightarrow> (None, s)
      | task # rest \<Rightarrow> (Some task, s\<lparr>frontier := rest\<rparr>))"

subsection \<open>Page records and referrers\<close>

text \<open>
  The loop \<open>for ref in refs: if ref not in record.referrers: record.referrers.append(ref)\<close>
  on the referrer list of a record.
\<close>

fun backfill :: "string list \<Rightarrow> string list \<Rightarrow> string list" where
  "backfill have [] = have"
| "backfill have (r # refs) =
     (if r \<in> set have then backfill have refs else backfill (have @ [r]) refs)"

text \<open>\<open>self.referrers.get(url, [])\<close>\<close>

definition referrers_of :: "crawl_state \<Rightarrow> string \<Rightarrow> string list" where
  "referrers_of s u = (case map_of (referrers s) u of None \<Rightarrow> [] | Some refs \<Rightarrow> refs)"

text \<open>
  \<open>CrawlState.page\<close> returns the record object that \<open>self.pages[url]\<close> holds; the model
  returns the record together with the state in which \<open>pages\<close> holds it.
\<close>

definition page :: "string \<Rightarrow> int \<Rightarrow> crawl_state \<Rightarrow> page_record \<times> crawl_state" where
  "page u d s =
     (let record0 = (case map_of (pages s) u of
                       None \<Rightarrow> PageRecord u d
                     | Some r \<Rightarrow> r\<lparr>page_depth := min (page_depth r) d\<rparr>);
          record1 = record0\<lparr>page_referrers := backfill (page_referrers record0) (referrers_of s u)\<rparr>
      in (record1, s\<lparr>pages := AList.update u record1 (pages s)\<rparr>))"

definition record_referrer :: "string \<Rightarrow> string \<Rightarrow> crawl_state \<Rightarrow> crawl_state" where
  "record_referrer u referrer s =
     (if referrer = [] then s
      else
        let refs = referrers_of s u;
            refs' = (if referrer \<in> set refs then refs else refs @ [referrer]);
            s1 = s\<lparr>referrers := AList.update u refs' (referrers s)\<rparr>
        in (case map_of (pages s1) u of
              None \<Rightarrow> s1
            | Some p \<Rightarrow>
                if referrer \<in> set (page_referrers p) then s1
                else s1\<lparr>pages := AList.update u
                        (p\<lparr>page_referrers := page_referrers p @ [referrer]\<rparr>) (pages s1)\<rparr>))"

definition record_skip :: "string \<Rightarrow> string \<Rightarrow> crawl_state \<Rightarrow> crawl_state" where
  "record_skip u reason s =
     s\<lparr>skipped := skipped s @ [JObj [(''url'', JStr u), (''reason'', JStr reason)]]\<rparr>"

subsection \<open>Snapshots: \<open>to_dict\<close>, \<open>save\<close>, \<open>from_dict\<close>, \<open>load\<close>\<close>

text \<open>
  \<open>json.dumps\<close> and \<open>json.loads\<close> belong to Python's standard library and are parameters
  of the model: \<open>dumps\<close> prints a JSON tree, \<open>loads\<close> parses a text into a tree (\<open>Inr\<close>) or
  raises \<open>JSONDecodeError\<close> with a message (\<open>Inl\<close>). The payload that \<open>to_dict\<close> hands to
  \<open>json.dumps\<close> is written as the JSON tree it denotes: a tuple becomes an array, \<open>None\<close>
  becomes \<open>null\<close>. A file system is a map from paths to file contents.
\<close>

record json_lib =
  dumps :: "json \<Rightarrow> string"
  loads :: "string \<Rightarrow> string + json"

type_synonym files = "string \<rightharpoonup> string"

definition json_opt_str :: "string option \<Rightarrow> json" where
  "json_opt_str x = (case x of None \<Rightarrow> JNull | Some s \<Rightarrow> JStr s)"

definition page_to_dict :: "page_record \<Rightarrow> json" where
  "page_to_dict r =
     (let assets = JArr (map JObj (page_assets r))
      in JObj
        [(''url'', JStr (page_url r)),
         (''depth'', JInt (page_depth r)),
         (''title'', json_opt_str (page_title r)),
         (''assets'', assets),
         (''pdfs'', assets),
         (''errors'', JArr (map JStr (page_errors r))),
         (''referrers'', JArr (map JStr (page_referrers r))),
         (''last_status'', json_opt_str (page_last_status r))])"

text \<open>
  \<open>list(self.visited)\<close> lists a set in an order Python does not fix. The order is the
  argument \<open>vs\<close> of \<open>to_dict\<close> and \<open>save\<close>: any list with \<open>set vs = visited s\<close>.
\<close>

definition to_dict :: "string list \<Rightarrow> crawl_state \<Rightarrow> json" where
  "to_dict vs s =
     (let cache = JObj (asset_cache s)
      in JObj
        [(''start_url'', JStr (start_url s)),
         (''max_depth'', JInt (max_depth s)),
         (''respect_robots'', JBool (respect_robots s)),
         (''same_domain_only'', JBool (same_domain_only s)),
         (''include_patterns'', JArr (map JStr (include_patterns s))),
         (''exclude_patterns'', JArr (map JStr (exclude_patterns s))),
         (''target_extensions'', JArr (map JStr (target_extensions s))),
         (''frontier'', JArr (map (\<lambda>(u, d). JArr [JStr u, JInt d]) (frontier s))),
         (''visited'', JArr (map JStr vs)),
         (''asset_cache'', cache),
         (''pdf_cache'', cache),
         (''pages'', JObj (map (\<lambda>(u, r). (u, page_to_dict r)) (pages s))),
         (''skipped'', JArr (skipped s)),
         (''started_at'', json_opt_str (started_at s)),
         (''finished_at'', json_opt_str (finished_at s)),
         (''referrers'', JObj (map (\<lambda>(u, refs). (u, JArr (map JStr refs))) (referrers s))),
         (''asset_manifest'', JObj (asset_manifest s))])"

definition save :: "json_lib \<Rightarrow> string list \<Rightarrow> string \<Rightarrow> crawl_state \<Rightarrow> files \<Rightarrow> files" where
  "save J vs path s fs = fs(path \<mapsto> dumps J (to_dict vs s))"

text \<open>
  Reading a payload back. Python checks no type when it builds the dataclasses; the model
  takes the dataclass annotations as its types, so where Python would go on with a value
  of another type (a number as \<open>start_url\<close>, say) the model stops with \<open>TypeError\<close>. The
  exceptions Python itself raises (\<open>KeyError\<close> for a missing \<open>start_url\<close>, \<open>max_depth\<close> or
  page \<open>url\<close>, \<open>AttributeError\<close> for a payload or page that is no object, \<open>ValueError\<close> and
  \<open>TypeError\<close> of \<open>int\<close> and \<open>list\<close>) are raised at the same places, in the order in which
  Python evaluates the arguments.
\<close>

definition as_str :: "json \<Rightarrow> error + string" where
  "as_str j = (case j of JStr s \<Rightarrow> Inr s | _ \<Rightarrow> Inl TypeError)"

definition as_opt_str :: "json \<Rightarrow> error + string option" where
  "as_opt_str j = (case j of JNull \<Rightarrow> Inr None | JStr s \<Rightarrow> Inr (Some s) | _ \<Rightarrow> Inl TypeError)"

definition as_bool :: "json \<Rightarrow> error + bool" where
  "as_bool j = (case j of JBool b \<Rightarrow> Inr b | _ \<Rightarrow> Inl TypeError)"

definition as_dict :: "json \<Rightarrow> error + pydict" where
  "as_dict j = (case j of JObj d \<Rightarrow> Inr d | _ \<Rightarrow> Inl TypeError)"

text \<open>\<open>x.items()\<close> and \<open>x.get\<close>: only a dict has them.\<close>

definition items :: "json \<Rightarrow> error + pydict" where
  "items j = (case j of JObj d \<Rightarrow> Inr d | _ \<Rightarrow> Inl AttributeError)"

definition str_list :: "json \<Rightarrow> error + string list" where
  "str_list j = bind_result (py_list j) (map_result as_str)"

text \<open>\<open>tuple(item)\<close> for an entry of the frontier: a pair of a URL and a depth.\<close>

definition frontier_item :: "json \<Rightarrow> error + (string \<times> int)" where
  "frontier_item j =
     bind_result (py_list j)
       (\<lambda>xs. case xs of [JStr u, JInt d] \<Rightarrow> Inr (u, d) | _ \<Rightarrow> Inl TypeError)"

definition from_dict :: "json \<Rightarrow> error + page_record" where
  "from_dict j =
     bind_result (items j) (\<lambda>payload.
       let assets0 = dict_get payload ''assets'';
           assets = (if assets0 = JNull \<and> map_of payload ''pdfs'' \<noteq> None
                     then dict_get payload ''pdfs'' else assets0);
           referrers = py_or (dict_get payload ''referrers'')
                         (py_or (dict_get payload ''parents'') (JArr []))
       in
       bind_result (bind_result (dict_item payload ''url'') as_str) (\<lambda>u.
       bind_result (py_int (dict_get_default payload ''depth'' (JInt 0))) (\<lambda>d.
       bind_result (as_opt_str (dict_get payload ''title'')) (\<lambda>ttl.
       bind_result (bind_result (py_list (py_or assets (JArr []))) (map_result as_dict)) (\<lambda>asts.
       bind_result (str_list (dict_get_default payload ''errors'' (JArr []))) (\<lambda>errs.
       bind_result (str_list (py_or referrers (JArr []))) (\<lambda>refs.
       bind_result (as_opt_str (dict_get payload ''last_status'')) (\<lambda>st.
         Inr \<lparr>page_url = u, page_depth = d, page_title = ttl, page_assets = asts,
              page_errors = errs, page_referrers = refs, page_last_status = st\<rparr>))))))))"

definition load_payload :: "json \<Rightarrow> error + crawl_state" where
  "load_payload j =
     bind_result (items j) (\<lambda>payload.
       bind_result
         (bind_result (items (dict_get_default payload ''pages'' (JObj [])))
            (map_result (\<lambda>(u, data). bind_result (from_dict data) (\<lambda>r. Inr (u, r)))))
         (\<lambda>pgs.
       let cache = py_or (dict_get payload ''asset_cache'')
                     (py_or (dict_get payload ''pdf_cache'') (JObj []))
       in
       bind_result (bind_result (dict_item payload ''start_url'') as_str) (\<lambda>su.
       bind_result (bind_result (dict_item payload ''max_depth'') py_int) (\<lambda>md.
       bind_result (as_bool (dict_get_default payload ''respect_robots'' (JBool True))) (\<lambda>rr.
       bind_result (as_bool (dict_get_default payload ''same_domain_only'' (JBool True))) (\<lambda>sd.
       bind_result (str_list (dict_get_default payload ''include_patterns'' (JArr []))) (\<lambda>inc.
       bind_result (str_list (dict_get_default payload ''exclude_patterns'' (JArr []))) (\<lambda>exc.
       bind_result (str_list (dict_get_default payload ''target_extensions'' (JArr []))) (\<lambda>exts.
       bind_result (bind_result (py_list (dict_get_default payload ''frontier'' (JArr [])))
                      (map_result frontier_item)) (\<lambda>fr.
       bind_result (str_list (dict_get_default payload ''visited'' (JArr []))) (\<lambda>vis.
       bind_result (as_dict cache) (\<lambda>ac.
       bind_result (py_list (dict_get_default payload ''skipped'' (JArr []))) (\<lambda>sk.
       bind_result (as_opt_str (dict_get payload ''started_at'')) (\<lambda>sa.
       bind_result (as_opt_str (dict_get payload ''finished_at'')) (\<lambda>fa.
       bind_result
         (bind_result (items (py_or (dict_get payload ''referrers'') (JObj [])))
            (map_result (\<lambda>(u, refs). bind_result (str_list refs) (\<lambda>rs. Inr (u, rs)))))
         (\<lambda>rf.
       bind_result (as_dict (dict_get_default payload ''asset_manifest'' (JObj []))) (\<lambda>am.
         Inr \<lparr>start_url = su, max_depth = md, respect_robots = rr, same_domain_only = sd,
              include_patterns = inc, exclude_patterns = exc, target_extensions = exts,
              frontier = fr, visited = set vis, asset_cache = ac, pages = pgs,
              skipped = sk, started_at = sa, finished_at = fa, referrers = rf,
              asset_manifest = am\<rparr>)))))))))))))))))"

definition load :: "json_lib \<Rightarrow> files \<Rightarrow> string \<Rightarrow> error + crawl_state" where
  "load J fs path =
     (case fs path of
        None \<Rightarrow> Inl FileNotFoundError
      | Some raw \<Rightarrow>
          if strip raw = [] then Inl (ValueError (''State file '' @ path @ '' is empty''))
          else (case loads J raw of
                  Inl msg \<Rightarrow>
                    Inl (ValueError (''Invalid JSON in state file '' @ path @ '': '' @ msg))
                | Inr payload \<Rightarrow> load_payload payload))"

subsection \<open>Asset manifest\<close>

text \<open>
  \<open>register_asset\<close>. An entry of the manifest is a dict; its \<open>pages\<close> is a list of dicts.
  The manifest may hold what an earlier snapshot held, so an entry of another shape is
  possible: Python then raises \<open>TypeError\<close> or \<open>AttributeError\<close> where it first uses it,
  and so does the model. \<open>now\<close> is the time stamp read from the clock.
\<close>

text \<open>
  The loop over \<open>pages\<close>: update the first item of the page, if there is one. The loop
  stops there, so only the items up to that one are looked at; an item that is no dict
  has no \<open>get\<close>.
\<close>

fun update_page_item ::
  "string \<Rightarrow> int \<Rightarrow> string \<Rightarrow> bool \<Rightarrow> json list \<Rightarrow> error + json list option"
where
  "update_page_item page_url0 d p reused [] = Inr None"
| "update_page_item page_url0 d p reused (x # rest) =
     (case x of
        JObj item \<Rightarrow>
          if dict_get item ''page'' = JStr page_url0
          then let item1 = AList.update ''path'' (JStr p) (AList.update ''depth'' (JInt d) item);
                   item2 = (if reused then AList.update ''reused'' (JBool True) item1 else item1)
               in Inr (Some (JObj item2 # rest))
          else bind_result (update_page_item page_url0 d p reused rest)
                 (\<lambda>r. Inr (map_option (\<lambda>rest'. x # rest') r))
      | _ \<Rightarrow> Inl AttributeError)"

text \<open>
  The first part of \<open>register_asset\<close>: the entry, new or updated, with \<open>pages\<close> set if it
  was missing (\<open>entry.setdefault('pages', [])\<close>).
\<close>

definition manifest_entry ::
  "string \<Rightarrow> string \<Rightarrow> string \<Rightarrow> string \<Rightarrow> int \<Rightarrow> string option \<Rightarrow> string option
   \<Rightarrow> crawl_state \<Rightarrow> error + pydict"
where
  "manifest_entry now asset_url p page_url0 d asset_type extension s =
     (case dict_get (asset_manifest s) asset_url of
        JNull \<Rightarrow>
          Inr [(''path'', JStr p), (''type'', json_opt_str asset_type),
               (''extension'', json_opt_str extension), (''first_page'', JStr page_url0),
               (''first_depth'', JInt d), (''first_seen'', JStr now), (''pages'', JArr [])]
      | JObj entry \<Rightarrow>
          let e1 = AList.update ''path'' (JStr p) entry;
              e2 = (if truthy (json_opt_str asset_type)
                    then AList.update ''type'' (json_opt_str asset_type) e1 else e1);
              e3 = (if truthy (json_opt_str extension)
                    then AList.update ''extension'' (json_opt_str extension) e2 else e2)
          in Inr (if map_of e3 ''pages'' = None then e3 @ [(''pages'', JArr [])] else e3)
      | _ \<Rightarrow> Inl TypeError)"

text \<open>
  The second part: the loop over \<open>pages\<close> and \<open>pages.append\<close>. A list is searched and
  extended; a string or a dict fails at \<open>item.get\<close> or at \<open>append\<close>; anything else cannot
  be iterated.
\<close>

definition entry_pages ::
  "string \<Rightarrow> int \<Rightarrow> string \<Rightarrow> bool \<Rightarrow> pydict \<Rightarrow> error + json list"
where
  "entry_pages page_url0 d p reused entry =
     (case dict_get entry ''pages'' of
        JArr xs \<Rightarrow>
          bind_result (update_page_item page_url0 d p reused xs) (\<lambda>r.
            case r of
              Some updated \<Rightarrow> Inr updated
            | None \<Rightarrow> Inr (xs @ [JObj [(''page'', JStr page_url0), (''depth'', JInt d),
                                        (''path'', JStr p), (''reused'', JBool reused)]]))
      | JStr x \<Rightarrow> Inl AttributeError
      | JObj x \<Rightarrow> Inl AttributeError
      | _ \<Rightarrow> Inl TypeError)"

text \<open>
  \<open>register_asset\<close>. An entry that the manifest holds already is changed in place, so
  when the second part raises, the manifest has the entry as the first part left it. The
  result is the exception, if any, and the state as the call leaves it.
\<close>

definition register_asset ::
  "string \<Rightarrow> string \<Rightarrow> string \<Rightarrow> string \<Rightarrow> int \<Rightarrow> string option \<Rightarrow> string option \<Rightarrow> bool
   \<Rightarrow> crawl_state \<Rightarrow> error option \<times> crawl_state"
where
  "register_asset now asset_url p page_url0 d asset_type extension reused s =
     (case manifest_entry now asset_url p page_url0 d asset_type extension s of
        Inl e \<Rightarrow> (Some e, s)
      | Inr entry \<Rightarrow>
          (case entry_pages page_url0 d p reused entry of
             Inl e \<Rightarrow>
               (Some e,
                if dict_get (asset_manifest s) asset_url = JNull then s
                else s\<lparr>asset_manifest := AList.update asset_url (JObj entry) (asset_manifest s)\<rparr>)
           | Inr pgs \<Rightarrow>
               let entry1 = AList.update ''pages'' (JArr pgs) entry;
                   entry2 = AList.update ''last_seen'' (JStr now) entry1;
                   entry3 = AList.update ''download_count'' (JInt (int (length pgs))) entry2
               in (None,
                   s\<lparr>asset_manifest := AList.update asset_url (JObj entry3) (asset_manifest s)\<rparr>)))"

subsection \<open>Time stamps\<close>

definition mark_started :: "string \<Rightarrow> crawl_state \<Rightarrow> crawl_state" where
  "mark_started now s =
     (if started_at s = None \<or> started_at s = Some [] then s\<lparr>started_at := Some now\<rparr> else s)"

section \<open>\<open>scraper/crawler.py\<close>: the crawl engine\<close>

text \<open>
  The fields of \<open>FileCrawler\<close> that the modelled methods read or write. A future of the
  download pool is named by a number; a page waiting for a download is named by its URL,
  the key under which \<open>state.pages\<close> holds its record. The rate limiter, the HTTP session,
  the log and the ring buffer of recent events are not modelled.
\<close>

record crawler =
  state :: crawl_state
  target_exts :: "string list"
  robots :: robots_handler
  queued_pages :: "string set"
  active_downloads :: nat
  asset_inflight :: "(string \<times> nat) list"
  asset_waiters :: "(string \<times> string list) list"

record scraper_settings =
  state_path :: string
  settings_user_agent :: string
  settings_target_extensions :: "string list"

subsection \<open>Construction\<close>

definition clean_extension :: "string \<Rightarrow> string option" where
  "clean_extension ext =
     (if ext = [] then None
      else let cleaned = strip (lower ext)
           in if cleaned = [] then None
              else if \<not> startswith cleaned ''.'' then Some (''.'' @ cleaned)
              else Some cleaned)"

definition prepare_extensions :: "string list \<Rightarrow> string list" where
  "prepare_extensions raw =
     (let normalized = set (List.map_filter clean_extension raw);
          normalized' = (if normalized = {} then {''.pdf''} else normalized)
      in sorted_list_of_set normalized')"

text \<open>
  \<open>_hydrate_cache_from_previous_run\<close>: entries of an earlier snapshot's asset cache and
  manifest are copied into a fresh state. A snapshot that does not parse is ignored.
\<close>

definition hydrate_cache_entry :: "(string \<times> json) list \<Rightarrow> string \<times> json \<Rightarrow> (string \<times> json) list" where
  "hydrate_cache_entry cache kv =
     (case kv of (u, entry) \<Rightarrow>
        (case entry of
           JObj d \<Rightarrow> if map_of cache u = None \<and> truthy (dict_get d ''path'')
                    then AList.update u entry cache else cache
         | _ \<Rightarrow> cache))"

definition hydrate_manifest_entry :: "(string \<times> json) list \<Rightarrow> string \<times> json \<Rightarrow> (string \<times> json) list" where
  "hydrate_manifest_entry manifest kv =
     (case kv of (u, entry) \<Rightarrow>
        (case entry of
           JObj d \<Rightarrow> if map_of manifest u = None then AList.update u entry manifest else manifest
         | _ \<Rightarrow> manifest))"

definition hydrate_cache_from_previous_run ::
  "json_lib \<Rightarrow> files \<Rightarrow> string \<Rightarrow> crawl_state \<Rightarrow> error + crawl_state"
where
  "hydrate_cache_from_previous_run J fs path s =
     (case fs path of
        None \<Rightarrow> Inr s
      | Some raw \<Rightarrow>
          (case loads J raw of
             Inl msg \<Rightarrow> Inr s
           | Inr j \<Rightarrow>
               bind_result (items j) (\<lambda>payload.
                 let cached_assets = py_or (dict_get payload ''asset_cache'')
                                       (py_or (dict_get payload ''pdf_cache'') (JObj []));
                     manifest = py_or (dict_get payload ''asset_manifest'') (JObj [])
                 in
                 bind_result (items cached_assets) (\<lambda>cs.
                 bind_result (items manifest) (\<lambda>ms.
                   Inr (s\<lparr>asset_cache := foldl hydrate_cache_entry (asset_cache s) cs,
                          asset_manifest := foldl hydrate_manifest_entry (asset_manifest s) ms\<rparr>))))))"

text \<open>
  The arguments of \<open>FileCrawler.__init__\<close> that reach the crawl state. An argument
  \<open>target_extensions=None\<close> is the empty list. \<open>now\<close> is the time stamp that \<open>mark_started\<close>
  reads from the clock.
\<close>

record crawl_args =
  arg_start_url :: string
  arg_max_depth :: int
  arg_include_patterns :: "string list"
  arg_exclude_patterns :: "string list"
  arg_respect_robots :: bool
  arg_same_domain_only :: bool
  arg_resume :: bool
  arg_target_extensions :: "string list"

definition fresh_state :: "json_lib \<Rightarrow> files \<Rightarrow> scraper_settings \<Rightarrow> crawl_args \<Rightarrow> string list \<Rightarrow> error + crawl_state" where
  "fresh_state J fs settings args exts =
     hydrate_cache_from_previous_run J fs (state_path settings)
       (enqueue (arg_start_url args) 0
          (CrawlState (arg_start_url args) (arg_max_depth args) (arg_respect_robots args)
             (arg_same_domain_only args) (arg_include_patterns args)
             (arg_exclude_patterns args) exts))"

definition FileCrawler ::
  "json_lib \<Rightarrow> files \<Rightarrow> string \<Rightarrow> scraper_settings \<Rightarrow> crawl_args \<Rightarrow> error + crawler"
where
  "FileCrawler J fs now settings args =
     (let exts = prepare_extensions
                   (if arg_target_extensions args \<noteq> [] then arg_target_extensions args
                    else settings_target_extensions settings);
          loaded = (if arg_resume args \<and> fs (state_path settings) \<noteq> None
                    then (case load J fs (state_path settings) of
                            Inr s \<Rightarrow> Inr s
                          | Inl (ValueError msg) \<Rightarrow> fresh_state J fs settings args exts
                          | Inl e \<Rightarrow> Inl e)
                    else fresh_state J fs settings args exts)
      in bind_result loaded (\<lambda>s0.
           let s1 = mark_started now s0;
               s2 = (if target_extensions s1 = [] then s1\<lparr>target_extensions := exts\<rparr> else s1);
               exts' = (if target_extensions s1 = [] then exts
                        else prepare_extensions (target_extensions s1))
           in Inr \<lparr>state = s2, target_exts = exts',
                   robots = RobotsHandler (settings_user_agent settings) (arg_respect_robots args),
                   queued_pages = fst ` set (frontier s2),
                   active_downloads = 0, asset_inflight = [], asset_waiters = []\<rparr>))"

subsection \<open>Link classification\<close>

text \<open>
  \<open>_extract_links\<close> hands every candidate link of a page (the reference and its label,
  found by the HTML parser) to the local function \<open>consider\<close>. The lists and sets that
  \<open>consider\<close> fills are the record \<open>links\<close>; the skip log it writes is in the crawler, and
  the cache of \<open>_parser_for\<close> belongs to the process. \<open>robots_ref\<close> is the identity of the
  handler object that the crawler's field \<open>robots\<close> holds.
\<close>

record links =
  link_assets :: "(string \<times> string \<times> string) list"
  link_html :: "string list"
  assets_seen :: "string set"
  html_seen :: "string set"

definition no_links :: links where
  "no_links = \<lparr>link_assets = [], link_html = [], assets_seen = {}, html_seen = {}\<rparr>"

definition skip_link :: "string \<Rightarrow> string \<Rightarrow> crawler \<Rightarrow> crawler" where
  "skip_link u reason c = c\<lparr>state := record_skip u reason (state c)\<rparr>"

text \<open>The local function \<open>consider\<close> of \<open>_extract_links\<close>.\<close>

definition consider_link ::
  "env \<Rightarrow> handler_ref \<Rightarrow> string \<Rightarrow> string list \<Rightarrow> string \<Rightarrow> string
   \<Rightarrow> links \<times> crawler \<times> parser_cache \<Rightarrow> error + (links \<times> crawler \<times> parser_cache)"
where
  "consider_link E robots_ref base_url target_exts0 url_value label acc =
     (case acc of (ls, c, m) \<Rightarrow>
        if url_value = [] then Inr (ls, c, m)
        else
          bind_result (normalize_url (env_lib E) base_url url_value) (\<lambda>norm_opt.
            case norm_opt of
              None \<Rightarrow> Inr (ls, c, m)
            | Some norm \<Rightarrow>
                if norm = [] then Inr (ls, c, m)
                else if match_patterns (env_re E) norm (exclude_patterns (state c))
                  then Inr (ls, skip_link norm ''exclude-pattern'' c, m)
                else if include_patterns (state c) \<noteq> []
                        \<and> \<not> match_patterns (env_re E) norm (include_patterns (state c))
                  then Inr (ls, skip_link norm ''include-miss'' c, m)
                else
                  bind_result
                    (if same_domain_only (state c)
                     then same_registrable_domain E norm (start_url (state c))
                     else Inr True) (\<lambda>same.
                  if same_domain_only (state c) \<and> \<not> same
                    then Inr (ls, skip_link norm ''off-domain'' c, m)
                  else
                    bind_result (is_allowed E robots_ref (robots c) norm m) (\<lambda>(allowed, m1).
                      if \<not> allowed then Inr (ls, skip_link norm ''robots'' c, m1)
                      else
                        bind_result (match_extension (env_lib E) norm target_exts0)
                          (\<lambda>ext. case ext of
                             Some extension \<Rightarrow>
                               if norm \<in> assets_seen ls then Inr (ls, c, m1)
                               else Inr (ls\<lparr>assets_seen := insert norm (assets_seen ls),
                                            link_assets := link_assets ls
                                              @ [(norm, label, extension)]\<rparr>, c, m1)
                           | None \<Rightarrow>
                               if norm \<in> html_seen ls then Inr (ls, c, m1)
                               else Inr (ls\<lparr>html_seen := insert norm (html_seen ls),
                                            link_html := link_html ls @ [norm]\<rparr>, c, m1))))))"

fun consider_all ::
  "env \<Rightarrow> handler_ref \<Rightarrow> string \<Rightarrow> string list \<Rightarrow> (string \<times> string) list
   \<Rightarrow> links \<times> crawler \<times> parser_cache \<Rightarrow> error + (links \<times> crawler \<times> parser_cache)"
where
  "consider_all E robots_ref base_url exts [] acc = Inr acc"
| "consider_all E robots_ref base_url exts ((url_value, label) # rest) acc =
     bind_result (consider_link E robots_ref base_url exts url_value label acc)
       (consider_all E robots_ref base_url exts rest)"

definition extract_links ::
  "env \<Rightarrow> handler_ref \<Rightarrow> string \<Rightarrow> (string \<times> string) list \<Rightarrow> crawler \<Rightarrow> parser_cache
   \<Rightarrow> error + (links \<times> crawler \<times> parser_cache)"
where
  "extract_links E robots_ref base_url candidates c m =
     consider_all E robots_ref base_url
       (if target_extensions (state c) \<noteq> [] then target_extensions (state c) else target_exts c)
       candidates (no_links, c, m)"

subsection \<open>The frontier in the engine\<close>

text \<open>
  \<open>_enqueue_page\<close>, run under the lock. One pass of \<open>_crawl_loop\<close> that finds the crawl
  neither stopped nor paused: it returns the task handed to the page pool, if any.
\<close>

definition enqueue_page :: "string \<Rightarrow> string \<Rightarrow> int \<Rightarrow> crawler \<Rightarrow> crawler" where
  "enqueue_page parent_url u d c =
     (let st = record_referrer u parent_url (state c)
      in if u \<in> visited st \<or> u \<in> queued_pages c then c\<lparr>state := st\<rparr>
         else c\<lparr>state := enqueue u d st, queued_pages := insert u (queued_pages c)\<rparr>)"

definition crawl_loop_step :: "crawler \<Rightarrow> (string \<times> int) option \<times> crawler" where
  "crawl_loop_step c =
     (case dequeue (state c) of
        (None, st) \<Rightarrow> (None, c)
      | (Some (u, d), st) \<Rightarrow>
          if u \<in> visited st then (None, c\<lparr>state := st\<rparr>)
          else (Some (u, d),
                c\<lparr>state := st\<lparr>visited := insert u (visited st)\<rparr>,
                  queued_pages := queued_pages c - {u}\<rparr>))"

text \<open>Every URL of the frontier is in \<open>_queued_pages\<close> or already visited.\<close>

definition frontier_tracked :: "crawler \<Rightarrow> bool" where
  "frontier_tracked c =
     (fst ` set (frontier (state c)) \<subseteq> queued_pages c \<union> visited (state c))"

subsection \<open>Asset deduplication\<close>

text \<open>
  What the download worker takes from outside: the answers to its \<open>HEAD\<close> and \<open>GET\<close>
  requests and the file name it computes. \<open>net_head\<close> is the \<open>Content-Type\<close> of the \<open>HEAD\<close>
  response, or \<open>None\<close> when the request fails or the header is missing. \<open>net_get\<close> is the
  lower-cased \<open>Content-Type\<close> of a \<open>GET\<close> response whose body was read, or the message of
  the exception that the request or the reading raised. \<open>net_file_name\<close> stands for lines
  459 to 472 of \<open>_download_asset\<close>, which compute from the asset URL, the label and the
  extension, with \<open>pathlib\<close> and \<open>utils.slugify_title\<close>, the file name, the stem and the
  extension used when the name is taken.
\<close>

record net =
  net_head :: "string \<Rightarrow> string option"
  net_get :: "string \<Rightarrow> string + string"
  net_file_name :: "string \<Rightarrow> string \<Rightarrow> string \<Rightarrow> string \<times> string \<times> string"

text \<open>
  The running system: the crawler, the files of the output directory in the order in
  which they were written, the \<open>GET\<close> requests sent for assets (the physical downloads),
  whether the download pool exists, the tasks submitted to it that have not run yet, and
  the number of the next future. A task is the argument list of \<open>_download_asset\<close>.
\<close>

record download_task =
  task_page :: string
  task_asset_url :: string
  task_folder :: string
  task_label :: string
  task_extension :: string

record system =
  sys_crawler :: crawler
  sys_disk :: "string list"
  sys_requests :: "string list"
  sys_download_pool :: bool
  sys_tasks :: "(nat \<times> download_task) list"
  sys_next_future :: nat

definition get_page :: "string \<Rightarrow> crawler \<Rightarrow> error + page_record" where
  "get_page pu c = (case map_of (pages (state c)) pu of None \<Rightarrow> Inl (KeyError pu) | Some r \<Rightarrow> Inr r)"

definition put_page :: "string \<Rightarrow> page_record \<Rightarrow> crawler \<Rightarrow> crawler" where
  "put_page pu r c = c\<lparr>state := (state c)\<lparr>pages := AList.update pu r (pages (state c))\<rparr>\<rparr>"

text \<open>\<open>any(item.get('url') == asset_url for item in page.assets)\<close>\<close>

definition has_asset :: "string \<Rightarrow> page_record \<Rightarrow> bool" where
  "has_asset asset_url r = list_ex (\<lambda>item. dict_get item ''url'' = JStr asset_url) (page_assets r)"

text \<open>
  The loop of \<open>_attach_asset_to_page\<close> over \<open>page.assets\<close>: \<open>None\<close> when no entry has this
  URL and path, else the list with the first such entry marked reused if asked.
\<close>

fun mark_existing :: "string \<Rightarrow> string \<Rightarrow> bool \<Rightarrow> pydict list \<Rightarrow> pydict list option" where
  "mark_existing asset_url p reused [] = None"
| "mark_existing asset_url p reused (existing # rest) =
     (if dict_get existing ''url'' = JStr asset_url \<and> dict_get existing ''path'' = JStr p
      then Some ((if reused \<and> \<not> truthy (dict_get existing ''reused'')
                  then AList.update ''reused'' (JBool True) existing else existing) # rest)
      else map_option (\<lambda>rest'. existing # rest') (mark_existing asset_url p reused rest))"

text \<open>
  \<open>_attach_asset_to_page\<close>. When \<open>register_asset\<close> raises, the entry is already in the
  page's list and in the cache: the result is the exception, if any, and the crawler as
  the call leaves it.
\<close>

definition attach_asset_to_page ::
  "string \<Rightarrow> string \<Rightarrow> string \<Rightarrow> string \<Rightarrow> string option \<Rightarrow> string option \<Rightarrow> bool \<Rightarrow> crawler
   \<Rightarrow> error option \<times> crawler"
where
  "attach_asset_to_page now pu asset_url p asset_type extension reused c =
     (let typed = (if truthy (json_opt_str asset_type)
                   then [(''type'', json_opt_str asset_type)] else [])
                  @ (if truthy (json_opt_str extension)
                     then [(''extension'', json_opt_str extension)] else []);
          entry = [(''url'', JStr asset_url), (''path'', JStr p)] @ typed
                  @ (if reused then [(''reused'', JBool True)] else [])
      in case get_page pu c of
           Inl e \<Rightarrow> (Some e, c)
         | Inr r \<Rightarrow>
             (case mark_existing asset_url p reused (page_assets r) of
                Some marked \<Rightarrow> (None, put_page pu (r\<lparr>page_assets := marked\<rparr>) c)
              | None \<Rightarrow>
                  let c1 = put_page pu (r\<lparr>page_assets := page_assets r @ [entry]\<rparr>) c;
                      cache_entry = JObj ((''path'', JStr p) # typed);
                      s1 = (state c1)\<lparr>asset_cache :=
                              AList.update asset_url cache_entry (asset_cache (state c1))\<rparr>
                  in case register_asset now asset_url p (page_url r) (page_depth r)
                            asset_type extension reused s1 of
                       (failure, s2) \<Rightarrow> (failure, c1\<lparr>state := s2\<rparr>)))"

text \<open>\<open>dict.pop(key, None)\<close> and \<open>_drain_asset_waiters\<close>.\<close>

definition cache_pop :: "string \<Rightarrow> crawler \<Rightarrow> crawler" where
  "cache_pop asset_url c =
     c\<lparr>state := (state c)\<lparr>asset_cache := AList.delete asset_url (asset_cache (state c))\<rparr>\<rparr>"

definition waiters_of :: "crawler \<Rightarrow> string \<Rightarrow> string list" where
  "waiters_of c asset_url =
     (case map_of (asset_waiters c) asset_url of None \<Rightarrow> [] | Some ws \<Rightarrow> ws)"

definition drain_asset_waiters :: "string \<Rightarrow> crawler \<Rightarrow> string list \<times> crawler" where
  "drain_asset_waiters asset_url c =
     (waiters_of c asset_url, c\<lparr>asset_waiters := AList.delete asset_url (asset_waiters c)\<rparr>)"

text \<open>
  \<open>_materialize_cached_asset\<close>: \<open>Inr True\<close> when the cached file was attached, \<open>Inr False\<close>
  when it is gone, \<open>Inl\<close> when the call raised.
\<close>

definition materialize_cached_asset ::
  "string \<Rightarrow> string \<Rightarrow> string \<Rightarrow> string \<Rightarrow> pydict \<Rightarrow> system \<Rightarrow> (error + bool) \<times> system"
where
  "materialize_cached_asset now pu asset_url extension cache_entry y =
     (case as_str (dict_get_default cache_entry ''path'' (JStr [])) of
        Inl e \<Rightarrow> (Inl e, y)
      | Inr source_path \<Rightarrow>
          if source_path \<notin> set (sys_disk y)
          then (Inr False, y\<lparr>sys_crawler := cache_pop asset_url (sys_crawler y)\<rparr>)
          else
            (case bind_result (as_opt_str (dict_get cache_entry ''type'')) (\<lambda>asset_type.
                  bind_result
                    (as_opt_str (py_or (dict_get cache_entry ''extension'') (JStr extension)))
                    (\<lambda>preferred_ext. Inr (asset_type, preferred_ext))) of
               Inl e \<Rightarrow> (Inl e, y)
             | Inr (asset_type, preferred_ext) \<Rightarrow>
                 (case attach_asset_to_page now pu asset_url source_path asset_type
                         preferred_ext True (sys_crawler y) of
                    (Some e, c) \<Rightarrow> (Inl e, y\<lparr>sys_crawler := c\<rparr>)
                  | (None, c) \<Rightarrow> (Inr True, y\<lparr>sys_crawler := c\<rparr>))))"

text \<open>
  \<open>_schedule_asset_download\<close> takes the lock three times and calls
  \<open>_materialize_cached_asset\<close> in between. A thread that runs it is at one of these
  places, has returned, or has raised; between the places other threads run.
\<close>

datatype sched_pc =
    AtCheckCache
  | AtMaterialize pydict
  | AtClaim
  | AtSubmit
  | Returned
  | Failed error

record sched_thread =
  th_task :: download_task
  th_pc :: sched_pc

text \<open>The first locked block: is the asset attached already, is it in the cache?\<close>

definition schedule_check_cache :: "download_task \<Rightarrow> system \<Rightarrow> sched_pc \<times> system" where
  "schedule_check_cache t y =
     (case get_page (task_page t) (sys_crawler y) of
        Inl e \<Rightarrow> (Failed e, y)
      | Inr r \<Rightarrow>
          if has_asset (task_asset_url t) r then (Returned, y)
          else
            let entry = dict_get (asset_cache (state (sys_crawler y))) (task_asset_url t)
            in if \<not> truthy entry then (AtClaim, y)
               else
                 (case bind_result (as_dict entry) (\<lambda>d.
                       bind_result (bind_result (dict_item d ''path'') as_str)
                         (\<lambda>source_path. Inr (d, source_path))) of
                    Inl e \<Rightarrow> (Failed e, y)
                  | Inr (d, source_path) \<Rightarrow>
                      if source_path \<in> set (sys_disk y) then (AtMaterialize d, y)
                      else (AtClaim,
                            y\<lparr>sys_crawler := cache_pop (task_asset_url t) (sys_crawler y)\<rparr>)))"

text \<open>The second locked block: wait for a download in flight, or claim the download.\<close>

definition schedule_claim :: "download_task \<Rightarrow> system \<Rightarrow> sched_pc \<times> system" where
  "schedule_claim t y =
     (let c = sys_crawler y
      in if task_page t \<in> set (waiters_of c (task_asset_url t)) then (Returned, y)
         else if map_of (asset_inflight c) (task_asset_url t) \<noteq> None
           then (Returned,
                 y\<lparr>sys_crawler := c\<lparr>asset_waiters :=
                      AList.update (task_asset_url t)
                        (waiters_of c (task_asset_url t) @ [task_page t])
                        (asset_waiters c)\<rparr>\<rparr>)
         else (case get_page (task_page t) c of
                 Inl e \<Rightarrow> (Failed e, y)
               | Inr r \<Rightarrow>
                   if has_asset (task_asset_url t) r then (Returned, y)
                   else (AtSubmit,
                         y\<lparr>sys_crawler := c\<lparr>active_downloads := active_downloads c + 1\<rparr>\<rparr>)))"

text \<open>
  The task is submitted to the download pool, then, in the third locked block, its
  future is entered into \<open>_asset_inflight\<close>.
\<close>

definition schedule_submit :: "download_task \<Rightarrow> system \<Rightarrow> sched_pc \<times> system" where
  "schedule_submit t y =
     (if \<not> sys_download_pool y then (Failed (RuntimeError ''Download pool not available''), y)
      else
        let future = sys_next_future y;
            c = sys_crawler y
        in (Returned,
            y\<lparr>sys_tasks := sys_tasks y @ [(future, t)],
              sys_next_future := future + 1,
              sys_crawler := c\<lparr>asset_inflight :=
                 AList.update (task_asset_url t) future (asset_inflight c)\<rparr>\<rparr>))"

definition sched_step :: "string \<Rightarrow> sched_thread \<Rightarrow> system \<Rightarrow> sched_thread \<times> system" where
  "sched_step now th y =
     (let t = th_task th;
          r = (case th_pc th of
                 AtCheckCache \<Rightarrow> schedule_check_cache t y
               | AtMaterialize d \<Rightarrow>
                   (case materialize_cached_asset now (task_page t) (task_asset_url t)
                           (task_extension t) d y of
                      (Inl e, y') \<Rightarrow> (Failed e, y')
                    | (Inr reused, y') \<Rightarrow> (if reused then Returned else AtClaim, y'))
               | AtClaim \<Rightarrow> schedule_claim t y
               | AtSubmit \<Rightarrow> schedule_submit t y
               | Returned \<Rightarrow> (Returned, y)
               | Failed e \<Rightarrow> (Failed e, y))
      in (th\<lparr>th_pc := fst r\<rparr>, snd r))"

subsection \<open>The download worker\<close>

text \<open>\<open>str(n)\<close> for a natural number, and \<open>Path(p).suffix\<close>.\<close>

function str_nat :: "nat \<Rightarrow> string" where
  "str_nat n = (if n < 10 then [char_of (48 + n)]
                else str_nat (n div 10) @ [char_of (48 + n mod 10)])"
  by pat_completeness auto
termination
  by (relation "measure id") auto

definition path_suffix :: "string \<Rightarrow> string" where
  "path_suffix p =
     (let name = rev (takeWhile (\<lambda>c. c \<noteq> CHR ''/'') (rev p));
          ext = rev (takeWhile (\<lambda>c. c \<noteq> CHR ''.'') (rev name))
      in if CHR ''.'' \<in> set name \<and> ext \<noteq> [] \<and> length ext + 1 < length name
         then CHR ''.'' # ext else [])"

text \<open>
  The loop \<open>while target_path.exists()\<close>: the first of the target and its numbered
  variants that is not on the disk.
\<close>

partial_function (option) free_target ::
  "string list \<Rightarrow> string \<Rightarrow> string \<Rightarrow> string \<Rightarrow> string \<Rightarrow> nat \<Rightarrow> string option"
where
  "free_target disk folder base_stem suffix_ext target_path n =
     (if target_path \<in> set disk
      then free_target disk folder base_stem suffix_ext
             (folder @ ''/'' @ base_stem @ ''_'' @ str_nat n @ suffix_ext) (n + 1)
      else Some target_path)"

declare free_target.simps [code]

definition add_page_error :: "string \<Rightarrow> string \<Rightarrow> crawler \<Rightarrow> crawler" where
  "add_page_error pu msg c =
     (case map_of (pages (state c)) pu of
        None \<Rightarrow> c
      | Some r \<Rightarrow> put_page pu (r\<lparr>page_errors := page_errors r @ [msg]\<rparr>) c)"

definition error_text :: "error \<Rightarrow> string" where
  "error_text e =
     (case e of
        ValueError msg \<Rightarrow> msg | KeyError k \<Rightarrow> k | RuntimeError msg \<Rightarrow> msg
      | TypeError \<Rightarrow> ''TypeError'' | AttributeError \<Rightarrow> ''AttributeError''
      | FileNotFoundError \<Rightarrow> ''FileNotFoundError'')"

text \<open>The \<open>except Exception\<close> branch of \<open>_download_asset\<close>.\<close>

definition download_failed :: "download_task \<Rightarrow> string \<Rightarrow> string \<Rightarrow> system \<Rightarrow> system" where
  "download_failed t target_path exc y =
     (let msg = ''download-error: '' @ exc;
          c1 = cache_pop (task_asset_url t) (add_page_error (task_page t) msg (sys_crawler y));
          drained = drain_asset_waiters (task_asset_url t) c1;
          c2 = foldl (\<lambda>c w. add_page_error w msg c) (snd drained) (fst drained)
      in y\<lparr>sys_crawler := c2, sys_disk := filter (\<lambda>p. p \<noteq> target_path) (sys_disk y)\<rparr>)"

text \<open>Attaching the finished download to the pages that waited for it.\<close>

fun attach_waiters ::
  "string \<Rightarrow> string list \<Rightarrow> string \<Rightarrow> string \<Rightarrow> string option \<Rightarrow> string option \<Rightarrow> crawler
   \<Rightarrow> error option \<times> crawler"
where
  "attach_waiters now [] asset_url p asset_type extension c = (None, c)"
| "attach_waiters now (w # ws) asset_url p asset_type extension c =
     (case attach_asset_to_page now w asset_url p asset_type extension True c of
        (Some e, c') \<Rightarrow> (Some e, c')
      | (None, c') \<Rightarrow> attach_waiters now ws asset_url p asset_type extension c')"

definition download_asset :: "net \<Rightarrow> string \<Rightarrow> download_task \<Rightarrow> system \<Rightarrow> system option" where
  "download_asset N now t y =
     (case net_file_name N (task_asset_url t) (task_label t) (task_extension t) of
        (filename, base_stem, suffix_ext) \<Rightarrow>
          (case free_target (sys_disk y) (task_folder t) base_stem suffix_ext
                  (task_folder t @ ''/'' @ filename) 1 of
             None \<Rightarrow> None
           | Some target_path \<Rightarrow>
               let head_content_type = net_head N (task_asset_url t);
                   y1 = y\<lparr>sys_requests := sys_requests y @ [task_asset_url t]\<rparr>
               in (case net_get N (task_asset_url t) of
                     Inl exc \<Rightarrow> Some (download_failed t target_path exc y1)
                   | Inr content_type \<Rightarrow>
                       if contains ''text/html'' content_type
                       then Some (download_failed t target_path ''content-type html'' y1)
                       else
                         let y2 = y1\<lparr>sys_disk := sys_disk y1 @ [target_path]\<rparr>;
                             asset_type =
                               (if truthy (json_opt_str head_content_type)
                                then head_content_type
                                else if content_type \<noteq> [] then Some content_type else None);
                             file_extension =
                               (if task_extension t \<noteq> [] then task_extension t
                                else path_suffix target_path)
                         in (case attach_asset_to_page now (task_page t) (task_asset_url t)
                                    target_path asset_type (Some file_extension) False
                                    (sys_crawler y2) of
                               (Some e, c) \<Rightarrow>
                                 Some (download_failed t target_path (error_text e)
                                         (y2\<lparr>sys_crawler := c\<rparr>))
                             | (None, c) \<Rightarrow>
                                 let drained = drain_asset_waiters (task_asset_url t) c
                                 in (case attach_waiters now (fst drained) (task_asset_url t)
                                            target_path asset_type (Some file_extension)
                                            (snd drained) of
                                       (Some e, c') \<Rightarrow>
                                         Some (download_failed t target_path (error_text e)
                                                 (y2\<lparr>sys_crawler := c'\<rparr>))
                                     | (None, c') \<Rightarrow> Some (y2\<lparr>sys_crawler := c'\<rparr>))))))"

text \<open>\<open>_download_done\<close>, the callback of a finished future.\<close>

fun remove_future :: "nat \<Rightarrow> (string \<times> nat) list \<Rightarrow> (string \<times> nat) list" where
  "remove_future f [] = []"
| "remove_future f ((u, g) # rest) = (if g = f then rest else (u, g) # remove_future f rest)"

definition download_done :: "nat \<Rightarrow> system \<Rightarrow> system" where
  "download_done f y =
     (let c = sys_crawler y
      in y\<lparr>sys_crawler := c\<lparr>asset_inflight := remove_future f (asset_inflight c),
                              active_downloads := active_downloads c - 1\<rparr>\<rparr>)"

subsection \<open>Threads\<close>

text \<open>
  The page workers that are inside \<open>_schedule_asset_download\<close>, the download workers and
  the callbacks run in any order that keeps each thread's own order: a scheduling thread
  takes its next step, a submitted task runs, the callback of a finished task runs. Every
  step is one locked block of the source or a stretch of one thread between two of them.
\<close>

datatype event = Sched nat | Download nat | DownloadDone nat

record config =
  cfg_sys :: system
  cfg_threads :: "sched_thread list"
  cfg_finished :: "nat list"

definition exec_event :: "net \<Rightarrow> string \<Rightarrow> event \<Rightarrow> config \<Rightarrow> config option" where
  "exec_event N now ev cfg =
     (case ev of
        Sched i \<Rightarrow>
          if i < length (cfg_threads cfg)
          then let r = sched_step now (cfg_threads cfg ! i) (cfg_sys cfg)
               in Some (cfg\<lparr>cfg_sys := snd r, cfg_threads := (cfg_threads cfg)[i := fst r]\<rparr>)
          else None
      | Download f \<Rightarrow>
          (case map_of (sys_tasks (cfg_sys cfg)) f of
             None \<Rightarrow> None
           | Some t \<Rightarrow>
               map_option
                 (\<lambda>y. cfg\<lparr>cfg_sys := y, cfg_finished := cfg_finished cfg @ [f]\<rparr>)
                 (download_asset N now t
                    ((cfg_sys cfg)\<lparr>sys_tasks := AList.delete f (sys_tasks (cfg_sys cfg))\<rparr>)))
      | DownloadDone f \<Rightarrow>
          if f \<in> set (cfg_finished cfg)
          then Some (cfg\<lparr>cfg_sys := download_done f (cfg_sys cfg),
                         cfg_finished := removeAll f (cfg_finished cfg)\<rparr>)
          else None)"

fun run :: "net \<Rightarrow> string \<Rightarrow> event list \<Rightarrow> config \<Rightarrow> config option" where
  "run N now [] cfg = Some cfg"
| "run N now (ev # evs) cfg =
     (case exec_event N now ev cfg of None \<Rightarrow> None | Some cfg' \<Rightarrow> run N now evs cfg')"

section \<open>\<open>app.py\<close>: the start button\<close>






section \<open>Example data\<close>

text \<open>
  A small crawl state and crawler on which the theorems below are instantiated: one page
  visited, one page queued, a referrer graph that names a referrer twice.
\<close>

definition example_state :: crawl_state where
  "example_state =
     (CrawlState ''http://a/'' 2 True True [] [''logout''] [''.pdf''])
       \<lparr>frontier := [(''http://a/x'', 1)],
        visited := {''http://a/''},
        pages := [(''http://a/'',
                   (PageRecord ''http://a/'' 3)\<lparr>page_referrers := [''http://r1/'']\<rparr>)],
        referrers := [(''http://a/'', [''http://r1/'', ''http://r2/'', ''http://r2/''])],
        asset_manifest := [(''http://a/f.pdf'', JObj [(''download_count'', JInt 1)])]\<rparr>"

definition example_crawler :: crawler where
  "example_crawler =
     \<lparr>state = example_state, target_exts = [''.pdf''],
      robots = RobotsHandler ''SimpleFileScraper/1.0'' True, queued_pages = {''http://a/x''},
      active_downloads = 0, asset_inflight = [], asset_waiters = []\<rparr>"

text \<open>
  A stand-in for the JSON library that knows one document: it prints every tree as
  \<open>text\<close> and parses \<open>text\<close>, and nothing else, into the tree \<open>j\<close>.
\<close>

definition one_document_codec :: "string \<Rightarrow> json \<Rightarrow> json_lib" where
  "one_document_codec text j =
     \<lparr>dumps = (\<lambda>j'. text),
      loads = (\<lambda>raw. if raw = text then Inr j else Inl ''Expecting value'')\<rparr>"



text \<open>
  An environment that can be run: the model of \<open>urllib.parse\<close>, a regular expression
  engine that knows literal patterns only (it searches the pattern as a substring), an
  extractor that takes the last two labels of a host as domain and suffix, and a network
  on which host \<open>b\<close> serves a \<open>robots.txt\<close> that closes \<open>/private\<close>, host \<open>c\<close> answers
  the request for \<open>robots.txt\<close> with status 503, and no other host is reached.
\<close>

definition two_label_extract :: "string \<Rightarrow> string \<times> string" where
  "two_label_extract nl =
     (let host = takeWhile (\<lambda>c. c \<noteq> CHR '':'') nl;
          labels = split_on CHR ''.'' host
      in if length labels \<ge> 2 then (last (butlast labels), last labels) else (host, []))"

definition no_private :: robots_policy where
  "no_private useragent u = (\<not> contains ''/private'' u)"

definition example_urlopen :: "string \<Rightarrow> robots_response" where
  "example_urlopen robots_url =
     (if robots_url = ''http://b/robots.txt'' then RobotsTxt no_private
      else if robots_url = ''http://c/robots.txt'' then HttpError 503
      else ReadRaises)"

definition example_env :: env where
  "example_env =
     \<lparr>env_lib = cpython_urllib (\<lambda>h. True),
      env_re = (\<lambda>p v. Inr (contains p v)),
      env_extract = two_label_extract,
      env_fetch_robots = robot_file_parser example_urlopen\<rparr>"

text \<open>
  A crawler that has include patterns as well, and a crawl state whose referrer graph
  knows a page that has no record yet.
\<close>

definition scoped_crawler :: crawler where
  "scoped_crawler =
     example_crawler\<lparr>state := (state example_crawler)\<lparr>include_patterns := [''docs'']\<rparr>\<rparr>"

definition referred_state :: crawl_state where
  "referred_state =
     example_state\<lparr>referrers := referrers example_state
                      @ [(''http://a/x'', [''http://a/'', ''http://r1/'', ''http://a/''])]\<rparr>"



definition robots_on :: robots_handler where
  "robots_on = RobotsHandler ''SimpleFileScraper/1.0'' True"

text \<open>
  Two pages of depth 1 that link to the same PDF, each inside
  \<open>_schedule_asset_download\<close> for it, on a network that serves the PDF. The file name
  is the one the source computes for this URL.
\<close>

definition pdf_net :: net where
  "pdf_net =
     \<lparr>net_head = (\<lambda>u. Some ''application/pdf''),
      net_get = (\<lambda>u. Inr ''application/pdf''),
      net_file_name = (\<lambda>u label ext. (''sample.pdf'', ''sample'', ''.pdf''))\<rparr>"

definition two_pages_state :: crawl_state where
  "two_pages_state =
     (CrawlState ''http://a/index.html'' 2 False True [] [] [''.pdf''])
       \<lparr>visited := {''http://a/index.html'', ''http://a/docs/page.html'', ''http://a/docs/page2.html''},
        pages := [(''http://a/docs/page.html'', PageRecord ''http://a/docs/page.html'' 1),
                  (''http://a/docs/page2.html'', PageRecord ''http://a/docs/page2.html'' 1)]\<rparr>"

definition two_pages_system :: system where
  "two_pages_system =
     \<lparr>sys_crawler =
        \<lparr>state = two_pages_state, target_exts = [''.pdf''],
         robots = RobotsHandler ''SimpleFileScraper/1.0'' False, queued_pages = {},
         active_downloads = 0, asset_inflight = [], asset_waiters = []\<rparr>,
      sys_disk = [], sys_requests = [], sys_download_pool = True, sys_tasks = [],
      sys_next_future = 0\<rparr>"

definition sample_task :: "string \<Rightarrow> string \<Rightarrow> download_task" where
  "sample_task pu folder =
     \<lparr>task_page = pu, task_asset_url = ''http://a/docs/files/sample.pdf'',
      task_folder = folder, task_label = ''Sample'', task_extension = ''.pdf''\<rparr>"

definition two_pages_config :: config where
  "two_pages_config =
     \<lparr>cfg_sys = two_pages_system,
      cfg_threads =
        [\<lparr>th_task = sample_task ''http://a/docs/page.html'' ''out/a/docs/page.html/test-files'',
          th_pc = AtCheckCache\<rparr>,
         \<lparr>th_task = sample_task ''http://a/docs/page2.html'' ''out/a/docs/page2.html/second-page'',
          th_pc = AtCheckCache\<rparr>],
      cfg_finished = []\<rparr>"

text \<open>What a run leaves: the attachments of an asset (page, reused or not), page by page.\<close>

definition attachments :: "string \<Rightarrow> config \<Rightarrow> (string \<times> bool) list" where
  "attachments asset_url cfg =
     concat (map (\<lambda>(pu, r).
                    map (\<lambda>item. (pu, truthy (dict_get item ''reused'')))
                      (filter (\<lambda>item. dict_get item ''url'' = JStr asset_url) (page_assets r)))
               (pages (state (sys_crawler (cfg_sys cfg)))))"

definition download_count :: "string \<Rightarrow> config \<Rightarrow> json" where
  "download_count asset_url cfg =
     (case map_of (asset_manifest (state (sys_crawler (cfg_sys cfg)))) asset_url of
        Some (JObj entry) \<Rightarrow> dict_get entry ''download_count''
      | _ \<Rightarrow> JNull)"

definition outcome ::
  "string \<Rightarrow> config option \<Rightarrow> (string list \<times> string list \<times> (string \<times> bool) list \<times> json) option"
where
  "outcome asset_url r =
     map_option (\<lambda>cfg. (sys_disk (cfg_sys cfg), sys_requests (cfg_sys cfg),
                        attachments asset_url cfg, download_count asset_url cfg)) r"

section \<open>Properties of pattern matching\<close>

lemma match_patterns_filter:
  "match_patterns re_search v patterns =
   match_patterns re_search v (filter (\<lambda>p. p \<noteq> []) patterns)"
  by (induction patterns) (auto split: sum.splits bool.splits)

text \<open>
  Claim C10. \<open>match_patterns\<close> skips every empty pattern: whatever the regular expression
  engine answers (also one for which the empty pattern matches every string), the result
  is that of the list without its empty patterns, and a list made of empty patterns only
  yields \<open>False\<close>.
\<close>

theorem match_patterns_ignores_empty:
  "match_patterns re_search v patterns =
     match_patterns re_search v (filter (\<lambda>p. p \<noteq> []) patterns)
   \<and> ((\<forall>p \<in> set patterns. p = []) \<longrightarrow> \<not> match_patterns re_search v patterns)"
proof
  show "match_patterns re_search v patterns =
        match_patterns re_search v (filter (\<lambda>p. p \<noteq> []) patterns)"
    by (rule match_patterns_filter)
next
  show "(\<forall>p \<in> set patterns. p = []) \<longrightarrow> \<not> match_patterns re_search v patterns"
    by (induction patterns) auto
qed

theorem match_patterns_ignores_empty_witness:
  "\<not> match_patterns (\<lambda>p v. Inr True) ''abc'' ['''', '''']
   \<and> match_patterns (\<lambda>p v. Inr True) ''abc'' ['''', ''b'']"
  using match_patterns_ignores_empty [of "\<lambda>p v. Inr True" "''abc''" "['''', '''']"]
  by simp

section \<open>Properties of snapshots\<close>

lemma bind_result_Inr [simp]: "bind_result (Inr x) f = f x"
  by (simp add: bind_result_def)

lemma bind_result_Inl [simp]: "bind_result (Inl e) f = Inl e"
  by (simp add: bind_result_def)

lemma bind_result_eq_Inr: "bind_result r f = Inr y \<longleftrightarrow> (\<exists>x. r = Inr x \<and> f x = Inr y)"
  by (cases r) simp_all

lemma map_result_map:
  "(\<And>x. x \<in> set xs \<Longrightarrow> f (g x) = Inr x) \<Longrightarrow> map_result f (map g xs) = Inr xs"
  by (induction xs) simp_all

lemma py_or_arr [simp]: "py_or (JArr xs) (JArr []) = JArr xs"
  by (cases xs) (simp_all add: py_or_def truthy_def)

lemma py_or_obj [simp]: "py_or (JObj d) (JObj []) = JObj d"
  by (cases d) (simp_all add: py_or_def truthy_def)

lemma py_or_null [simp]: "py_or JNull b = b"
  by (simp add: py_or_def truthy_def)

lemma py_or_idem [simp]: "py_or a a = a"
  by (simp add: py_or_def)

lemma str_list_roundtrip [simp]: "str_list (JArr (map JStr xs)) = Inr xs"
  by (simp add: str_list_def py_list_def map_result_map as_str_def)

lemma as_opt_str_roundtrip [simp]: "as_opt_str (json_opt_str x) = Inr x"
  by (cases x) (simp_all add: as_opt_str_def json_opt_str_def)

lemma from_dict_roundtrip: "from_dict (page_to_dict r) = Inr r"
  by (simp add: from_dict_def page_to_dict_def Let_def items_def dict_get_def dict_item_def
      dict_get_default_def as_str_def py_int_def py_list_def map_result_map as_dict_def)

lemma frontier_roundtrip:
  "map_result frontier_item (map (\<lambda>(u, d). JArr [JStr u, JInt d]) fr) = Inr fr"
  by (rule map_result_map) (auto simp: frontier_item_def py_list_def)

lemma pages_roundtrip:
  "map_result (\<lambda>(u, data). bind_result (from_dict data) (\<lambda>r. Inr (u, r)))
     (map (\<lambda>(u, r). (u, page_to_dict r)) pgs) = Inr pgs"
  by (rule map_result_map) (auto simp: from_dict_roundtrip)

lemma referrers_roundtrip:
  "map_result (\<lambda>(u, refs). bind_result (str_list refs) (\<lambda>rs. Inr (u, rs)))
     (map (\<lambda>(u, refs). (u, JArr (map JStr refs))) rf) = Inr rf"
  by (rule map_result_map) auto

text \<open>Reading back the payload of a state gives the state, with the visited set rebuilt.\<close>

lemma load_payload_to_dict: "load_payload (to_dict vs s) = Inr (s\<lparr>visited := set vs\<rparr>)"
  by (simp add: load_payload_def to_dict_def Let_def items_def dict_get_def dict_item_def
      dict_get_default_def as_str_def py_int_def py_list_def as_dict_def as_bool_def
      frontier_roundtrip pages_roundtrip referrers_roundtrip)

text \<open>
  Claim C2. Saving a crawl state to a path and loading that path gives the state back:
  the same visited set, the same frontier in the same order, the same asset manifest
  (and every other field). The JSON library is any library that parses the text it
  printed for this payload back into the payload and prints no blank text; \<open>vs\<close> is the
  order in which \<open>list(self.visited)\<close> lists the visited set.
\<close>

theorem snapshot_roundtrip:
  assumes order: "set vs = visited s"
    and codec: "loads J (dumps J (to_dict vs s)) = Inr (to_dict vs s)"
    and nonblank: "strip (dumps J (to_dict vs s)) \<noteq> []"
  shows "load J (save J vs path s fs) path = Inr s"
proof -
  have "load J (save J vs path s fs) path = load_payload (to_dict vs s)"
    using codec nonblank by (simp add: load_def save_def)
  also have "\<dots> = Inr (s\<lparr>visited := set vs\<rparr>)"
    by (rule load_payload_to_dict)
  also have "s\<lparr>visited := set vs\<rparr> = s"
    using order by simp
  finally show ?thesis .
qed

theorem snapshot_roundtrip_witness:
  "load (one_document_codec ''{...}'' (to_dict [''http://a/''] example_state))
     (save (one_document_codec ''{...}'' (to_dict [''http://a/''] example_state))
        [''http://a/''] ''crawl_state.json'' example_state Map.empty)
     ''crawl_state.json''
   = Inr example_state
   \<and> visited example_state = {''http://a/''}
   \<and> frontier example_state = [(''http://a/x'', 1)]"
proof -
  have "strip ''{...}'' \<noteq> []"
    by (simp add: strip_def is_space_def)
  then show ?thesis
    using snapshot_roundtrip [of "[''http://a/'']" example_state
        "one_document_codec ''{...}'' (to_dict [''http://a/''] example_state)"
        "''crawl_state.json''" Map.empty]
    by (simp add: one_document_codec_def example_state_def CrawlState_def)
qed

text \<open>
  Claim C4. When the snapshot file is blank (empty or white space only) or its text is
  rejected by the JSON parser, as the text of a truncated snapshot is, \<open>CrawlState.load\<close>
  raises \<open>ValueError\<close> and returns no state. The fall back is the caller's: on such a file
  \<open>FileCrawler\<close> with \<open>resume=True\<close> builds what it builds with \<open>resume=False\<close>.
\<close>

theorem load_corrupt_snapshot_fails:
  assumes content: "fs path = Some raw"
    and corrupt: "strip raw = [] \<or> (\<exists>msg. loads J raw = Inl msg)"
  shows "(\<exists>msg. load J fs path = Inl (ValueError msg))
       \<and> (state_path settings = path \<longrightarrow>
            FileCrawler J fs now settings (args\<lparr>arg_resume := True\<rparr>)
            = FileCrawler J fs now settings (args\<lparr>arg_resume := False\<rparr>))"
proof -
  have failed: "\<exists>msg. load J fs path = Inl (ValueError msg)"
    using content corrupt by (auto simp: load_def)
  then have "state_path settings = path \<Longrightarrow>
      FileCrawler J fs now settings (args\<lparr>arg_resume := True\<rparr>)
      = FileCrawler J fs now settings (args\<lparr>arg_resume := False\<rparr>)"
    using content by (auto simp: FileCrawler_def fresh_state_def)
  with failed show ?thesis by blast
qed

theorem load_corrupt_snapshot_fails_witness:
  "load (one_document_codec ''{}'' (JObj [])) [''crawl_state.json'' \<mapsto> ''{''] ''crawl_state.json''
     = Inl (ValueError ''Invalid JSON in state file crawl_state.json: Expecting value'')
   \<and> load (one_document_codec ''{}'' (JObj [])) [''crawl_state.json'' \<mapsto> '' ''] ''crawl_state.json''
     = Inl (ValueError ''State file crawl_state.json is empty'')"
  using load_corrupt_snapshot_fails [of "[''crawl_state.json'' \<mapsto> ''{'']" "''crawl_state.json''"
      "''{''" "one_document_codec ''{}'' (JObj [])"]
  by (simp add: load_def one_document_codec_def strip_def is_space_def)

section \<open>Properties of page records\<close>

lemma backfill_appends:
  "\<exists>added. backfill have refs = have @ added \<and> distinct added
     \<and> set added = set refs - set have"
proof (induction refs arbitrary: "have")
  case Nil
  then show ?case by simp
next
  case (Cons r refs)
  show ?case
  proof (cases "r \<in> set have")
    case True
    with Cons.IH [of "have"] show ?thesis by auto
  next
    case False
    from Cons.IH [of "have @ [r]"] obtain added where
      a: "backfill (have @ [r]) refs = (have @ [r]) @ added" "distinct added"
         "set added = set refs - set (have @ [r])" by blast
    have "backfill have (r # refs) = have @ (r # added)" using False a by simp
    moreover have "distinct (r # added)" using a by auto
    moreover have "set (r # added) = set (r # refs) - set have" using a False by auto
    ultimately show ?thesis by blast
  qed
qed

lemma map_of_update_same: "map_of (AList.update k v al) k = Some v"
  by (simp add: update_conv')

lemma page_other_urls: "v \<noteq> u \<Longrightarrow> map_of (pages (snd (page u d s))) v = map_of (pages s) v"
  by (simp add: page_def Let_def update_conv')

text \<open>
  Claim C9. \<open>CrawlState.page\<close> returns, for every URL and depth, the record that
  \<open>state.pages\<close> holds for the URL afterwards. When \<open>state.pages\<close> held a record before,
  it is that record with its depth set to the minimum of its depth and the new depth;
  when it held none, it is a new record of the URL with the new depth. In both cases the
  referrers that the referrer graph holds for the URL are appended behind those the
  record had (none, for a new record): the appended ones are distinct, none was in the
  record, and together they are exactly the graph's referrers that the record lacked. So
  every referrer of the graph is in the record and none is added twice. The records of
  other URLs and the rest of the state stay as they were.
\<close>

theorem page_keeps_min_depth_and_backfills:
  "\<exists>added.
      fst (page u d s)
        = (case map_of (pages s) u of
             None \<Rightarrow> (PageRecord u d)\<lparr>page_referrers := added\<rparr>
           | Some r \<Rightarrow> r\<lparr>page_depth := min (page_depth r) d,
                          page_referrers := page_referrers r @ added\<rparr>)
    \<and> distinct added
    \<and> set added = set (referrers_of s u)
                    - (case map_of (pages s) u of
                         None \<Rightarrow> {} | Some r \<Rightarrow> set (page_referrers r))
    \<and> set (referrers_of s u) \<subseteq> set (page_referrers (fst (page u d s)))
    \<and> map_of (pages (snd (page u d s))) u = Some (fst (page u d s))
    \<and> (\<forall>v. v \<noteq> u \<longrightarrow> map_of (pages (snd (page u d s))) v = map_of (pages s) v)
    \<and> snd (page u d s) = s\<lparr>pages := pages (snd (page u d s))\<rparr>"
proof -
  have stored: "map_of (pages (snd (page u d s))) u = Some (fst (page u d s))"
    by (simp add: page_def Let_def map_of_update_same)
  have others: "\<forall>v. v \<noteq> u \<longrightarrow> map_of (pages (snd (page u d s))) v = map_of (pages s) v"
    by (simp add: page_other_urls)
  have rest: "snd (page u d s) = s\<lparr>pages := pages (snd (page u d s))\<rparr>"
    by (simp add: page_def Let_def)
  show ?thesis
  proof (cases "map_of (pages s) u")
    case None
    obtain added where a: "backfill [] (referrers_of s u) = [] @ added"
      "distinct added" "set added = set (referrers_of s u) - set []"
      using backfill_appends by blast
    have "fst (page u d s) = (PageRecord u d)\<lparr>page_referrers := added\<rparr>"
      using None a(1) by (simp add: page_def Let_def PageRecord_def)
    moreover have "set (referrers_of s u) \<subseteq> set (page_referrers (fst (page u d s)))"
      using calculation a(3) by simp
    ultimately show ?thesis using None a(2,3) stored others rest by auto
  next
    case (Some r)
    obtain added where a: "backfill (page_referrers r) (referrers_of s u) = page_referrers r @ added"
      "distinct added" "set added = set (referrers_of s u) - set (page_referrers r)"
      using backfill_appends by blast
    have "fst (page u d s) = r\<lparr>page_depth := min (page_depth r) d,
                 page_referrers := page_referrers r @ added\<rparr>"
      using Some a(1) by (simp add: page_def Let_def)
    moreover have "set (referrers_of s u) \<subseteq> set (page_referrers (fst (page u d s)))"
      using calculation a(3) by auto
    ultimately show ?thesis using Some a(2,3) stored others rest by auto
  qed
qed

text \<open>
  On the example: a page that has a record at depth 3 with one referrer, asked for at
  depth 1 and at depth 5; and a page that has no record while the referrer graph knows
  three referrers for it, one of them twice.
\<close>

theorem page_keeps_min_depth_and_backfills_witness:
  "map_of (pages referred_state) ''http://a/''
     = Some ((PageRecord ''http://a/'' 3)\<lparr>page_referrers := [''http://r1/'']\<rparr>)
   \<and> fst (page ''http://a/'' 1 referred_state)
     = (PageRecord ''http://a/'' 1)\<lparr>page_referrers := [''http://r1/'', ''http://r2/'']\<rparr>
   \<and> page_depth (fst (page ''http://a/'' 5 referred_state)) = 3
   \<and> map_of (pages referred_state) ''http://a/x'' = None
   \<and> referrers_of referred_state ''http://a/x'' = [''http://a/'', ''http://r1/'', ''http://a/'']
   \<and> fst (page ''http://a/x'' 2 referred_state)
     = (PageRecord ''http://a/x'' 2)\<lparr>page_referrers := [''http://a/'', ''http://r1/'']\<rparr>
   \<and> map_of (pages (snd (page ''http://a/x'' 2 referred_state))) ''http://a/x''
     = Some ((PageRecord ''http://a/x'' 2)\<lparr>page_referrers := [''http://a/'', ''http://r1/'']\<rparr>)
   \<and> map_of (pages (snd (page ''http://a/x'' 2 referred_state))) ''http://a/''
     = map_of (pages referred_state) ''http://a/''"
  using page_keeps_min_depth_and_backfills [of "''http://a/''" 1 referred_state]
    page_keeps_min_depth_and_backfills [of "''http://a/x''" 2 referred_state]
  by (simp add: referred_state_def example_state_def CrawlState_def PageRecord_def page_def
      referrers_of_def Let_def)

section \<open>Properties of the frontier\<close>

lemma record_referrer_frontier [simp]: "frontier (record_referrer u p s) = frontier s"
  by (simp add: record_referrer_def Let_def split: option.splits)

lemma record_referrer_visited [simp]: "visited (record_referrer u p s) = visited s"
  by (simp add: record_referrer_def Let_def split: option.splits)

text \<open>
  The constructor makes every frontier URL a queued page, and \<open>_enqueue_page\<close> and the
  crawl loop keep every frontier URL queued or visited.
\<close>

lemma FileCrawler_queued:
  "FileCrawler J fs now settings args = Inr c \<Longrightarrow> queued_pages c = fst ` set (frontier (state c))"
  by (clarsimp simp: FileCrawler_def Let_def bind_result_eq_Inr)

lemma FileCrawler_tracked: "FileCrawler J fs now settings args = Inr c \<Longrightarrow> frontier_tracked c"
  by (simp add: FileCrawler_queued frontier_tracked_def)


lemma crawl_loop_step_tracked: "frontier_tracked c \<Longrightarrow> frontier_tracked (snd (crawl_loop_step c))"
  by (fastforce simp: frontier_tracked_def crawl_loop_step_def dequeue_def split: list.splits)

lemma dequeue_tracked:
  "frontier_tracked c \<Longrightarrow> frontier_tracked (c\<lparr>state := snd (dequeue (state c))\<rparr>)"
  by (fastforce simp: frontier_tracked_def dequeue_def split: list.splits)

lemma enqueue_page_new:
  assumes "u \<notin> visited (state c)" "u \<notin> queued_pages c"
  shows "frontier (state (enqueue_page p u d c)) = frontier (state c) @ [(u, d)]"
  using assms by (auto simp: enqueue_page_def Let_def enqueue_def)







section \<open>Properties of the configuration\<close>









section \<open>Properties of link classification\<close>

text \<open>The definitions that evaluate the model of \<open>urllib.parse\<close> on a given URL.\<close>

lemmas urllib_eval =
  urlsplit_def py_urlparse_def py_urlunparse_def py_urljoin_def splitparams_def split_once_def
  unsafe_url_byte_def c0_control_or_space_def scheme_char_def ascii_alpha_def
  lower_def lower_char_def uses_params_def uses_netloc_def uses_relative_def Let_def

lemma skip_link_skipped:
  "skip_link u reason c
   = c\<lparr>state := (state c)\<lparr>skipped := skipped (state c)
                                @ [JObj [(''url'', JStr u), (''reason'', JStr reason)]]\<rparr>\<rparr>"
  by (simp add: skip_link_def record_skip_def)

text \<open>
  Claim C8, as amended. For a link that normalises to a canonical URL \<open>norm\<close>, \<open>consider\<close>
  checks the exclude patterns first, then the include patterns, then the domain, and
  stops at the first check that rejects the link. If \<open>norm\<close> matches an exclude pattern it
  is recorded in the skip log with reason \<open>exclude-pattern\<close>, whatever the include
  patterns and the domain are. If it matches no exclude pattern, there are include
  patterns and it matches none of them, it is recorded with reason \<open>include-miss\<close>. If it
  matches no exclude pattern and passes the include patterns, same-domain-only is on and
  its registrable domain differs from the start URL's, it is recorded with reason
  \<open>off-domain\<close>. In each of these cases nothing else happens: the link is collected
  neither as an asset nor as a page, \<open>robots.txt\<close> is not asked for, and recording appends
  one \<open>{url, reason}\<close> to the skip log and leaves the rest of the crawler as it is.
\<close>

theorem consider_excludes_before_other_checks:
  assumes "url_value \<noteq> []"
    and "normalize_url (env_lib E) base_url url_value = Inr (Some norm)"
    and "norm \<noteq> []"
  shows "(match_patterns (env_re E) norm (exclude_patterns (state c)) \<longrightarrow>
            consider_link E robots_ref base_url exts url_value label (ls, c, m)
            = Inr (ls, skip_link norm ''exclude-pattern'' c, m))
       \<and> (\<not> match_patterns (env_re E) norm (exclude_patterns (state c))
          \<and> include_patterns (state c) \<noteq> []
          \<and> \<not> match_patterns (env_re E) norm (include_patterns (state c)) \<longrightarrow>
            consider_link E robots_ref base_url exts url_value label (ls, c, m)
            = Inr (ls, skip_link norm ''include-miss'' c, m))
       \<and> (\<not> match_patterns (env_re E) norm (exclude_patterns (state c))
          \<and> (include_patterns (state c) = []
              \<or> match_patterns (env_re E) norm (include_patterns (state c)))
          \<and> same_domain_only (state c)
          \<and> same_registrable_domain E norm (start_url (state c)) = Inr False \<longrightarrow>
            consider_link E robots_ref base_url exts url_value label (ls, c, m)
            = Inr (ls, skip_link norm ''off-domain'' c, m))
       \<and> skip_link norm reason c
          = c\<lparr>state := (state c)\<lparr>skipped := skipped (state c)
                             @ [JObj [(''url'', JStr norm), (''reason'', JStr reason)]]\<rparr>\<rparr>"
proof (intro conjI impI)
  assume "match_patterns (env_re E) norm (exclude_patterns (state c))"
  then show "consider_link E robots_ref base_url exts url_value label (ls, c, m)
             = Inr (ls, skip_link norm ''exclude-pattern'' c, m)"
    using assms by (simp add: consider_link_def)
next
  assume "\<not> match_patterns (env_re E) norm (exclude_patterns (state c))
          \<and> include_patterns (state c) \<noteq> []
          \<and> \<not> match_patterns (env_re E) norm (include_patterns (state c))"
  then show "consider_link E robots_ref base_url exts url_value label (ls, c, m)
             = Inr (ls, skip_link norm ''include-miss'' c, m)"
    using assms by (simp add: consider_link_def)
next
  assume "\<not> match_patterns (env_re E) norm (exclude_patterns (state c))
          \<and> (include_patterns (state c) = []
              \<or> match_patterns (env_re E) norm (include_patterns (state c)))
          \<and> same_domain_only (state c)
          \<and> same_registrable_domain E norm (start_url (state c)) = Inr False"
  then show "consider_link E robots_ref base_url exts url_value label (ls, c, m)
             = Inr (ls, skip_link norm ''off-domain'' c, m)"
    using assms by (auto simp: consider_link_def)
next
  show "skip_link norm reason c
          = c\<lparr>state := (state c)\<lparr>skipped := skipped (state c)
                             @ [JObj [(''url'', JStr norm), (''reason'', JStr reason)]]\<rparr>\<rparr>"
    by (rule skip_link_skipped)
qed

text \<open>The example links, evaluated.\<close>

lemma parse_other_logout:
  "py_urlparse (\<lambda>h. True) ''http://other.org/logout'' s0 =
   Inr \<lparr>u_scheme = ''http'', u_netloc = ''other.org'', u_path = ''/logout'', u_params = [],
        u_query = [], u_fragment = []\<rparr>"
  by (simp add: urllib_eval)

lemma parse_other_docs:
  "py_urlparse (\<lambda>h. True) ''http://other.org/docs'' s0 =
   Inr \<lparr>u_scheme = ''http'', u_netloc = ''other.org'', u_path = ''/docs'', u_params = [],
        u_query = [], u_fragment = []\<rparr>"
  by (simp add: urllib_eval)

lemma parse_a_docs_logout:
  "py_urlparse (\<lambda>h. True) ''http://a/docs/logout'' s0 =
   Inr \<lparr>u_scheme = ''http'', u_netloc = ''a'', u_path = ''/docs/logout'', u_params = [],
        u_query = [], u_fragment = []\<rparr>"
  by (simp add: urllib_eval)

lemma parse_a_about:
  "py_urlparse (\<lambda>h. True) ''http://a/about'' s0 =
   Inr \<lparr>u_scheme = ''http'', u_netloc = ''a'', u_path = ''/about'', u_params = [],
        u_query = [], u_fragment = []\<rparr>"
  by (simp add: urllib_eval)

lemma parse_a_root:
  "py_urlparse (\<lambda>h. True) ''http://a/'' s0 =
   Inr \<lparr>u_scheme = ''http'', u_netloc = ''a'', u_path = ''/'', u_params = [],
        u_query = [], u_fragment = []\<rparr>"
  by (simp add: urllib_eval)

lemma normalize_other_logout:
  "normalize_url (env_lib example_env) ''http://a/'' ''http://other.org/logout''
   = Inr (Some ''http://other.org/logout'')"
  by (simp add: normalize_url_def example_env_def cpython_urllib_def py_urljoin_def
      parse_other_logout parse_a_root strip_def is_space_def startswith_def
      py_urlunparse_def uses_netloc_def uses_relative_def rstrip_char_def Let_def)

lemma normalize_other_docs:
  "normalize_url (env_lib example_env) ''http://a/'' ''http://other.org/docs''
   = Inr (Some ''http://other.org/docs'')"
  by (simp add: normalize_url_def example_env_def cpython_urllib_def py_urljoin_def
      parse_other_docs parse_a_root strip_def is_space_def startswith_def
      py_urlunparse_def uses_netloc_def uses_relative_def rstrip_char_def Let_def)

lemma normalize_a_docs_logout:
  "normalize_url (env_lib example_env) ''http://a/'' ''http://a/docs/logout''
   = Inr (Some ''http://a/docs/logout'')"
  by (simp add: normalize_url_def example_env_def cpython_urllib_def py_urljoin_def
      parse_a_docs_logout parse_a_root strip_def is_space_def startswith_def
      py_urlunparse_def uses_netloc_def uses_relative_def rstrip_char_def Let_def)

lemma normalize_a_about:
  "normalize_url (env_lib example_env) ''http://a/'' ''http://a/about''
   = Inr (Some ''http://a/about'')"
  by (simp add: normalize_url_def example_env_def cpython_urllib_def py_urljoin_def
      parse_a_about parse_a_root strip_def is_space_def startswith_def
      py_urlunparse_def uses_netloc_def uses_relative_def rstrip_char_def Let_def)

lemma domain_a: "extract_domain example_env ''http://a/'' = Inr ''a''"
  by (simp add: extract_domain_def example_env_def cpython_urllib_def parse_a_root
      two_label_extract_def Let_def)

lemma domain_other_logout: "extract_domain example_env ''http://other.org/logout'' = Inr ''other.org''"
  by (simp add: extract_domain_def example_env_def cpython_urllib_def parse_other_logout
      two_label_extract_def Let_def)

lemma domain_other_docs: "extract_domain example_env ''http://other.org/docs'' = Inr ''other.org''"
  by (simp add: extract_domain_def example_env_def cpython_urllib_def parse_other_docs
      two_label_extract_def Let_def)

lemma example_crawler_scope:
  "exclude_patterns (state example_crawler) = [''logout'']"
  "include_patterns (state example_crawler) = []"
  "same_domain_only (state example_crawler)"
  "start_url (state example_crawler) = ''http://a/''"
  "skipped (state example_crawler) = []"
  by (simp_all add: example_crawler_def example_state_def CrawlState_def)

lemma scoped_crawler_scope:
  "exclude_patterns (state scoped_crawler) = [''logout'']"
  "include_patterns (state scoped_crawler) = [''docs'']"
  "same_domain_only (state scoped_crawler)"
  "start_url (state scoped_crawler) = ''http://a/''"
  "skipped (state scoped_crawler) = []"
  by (simp_all add: scoped_crawler_def example_crawler_def example_state_def CrawlState_def)

lemma match_logout:
  "match_patterns (env_re example_env) ''http://other.org/logout'' [''logout'']"
  "match_patterns (env_re example_env) ''http://a/docs/logout'' [''logout'']"
  "match_patterns (env_re example_env) ''http://a/docs/logout'' [''docs'']"
  "\<not> match_patterns (env_re example_env) ''http://a/about'' [''logout'']"
  "\<not> match_patterns (env_re example_env) ''http://a/about'' [''docs'']"
  "\<not> match_patterns (env_re example_env) ''http://other.org/docs'' [''logout'']"
  "match_patterns (env_re example_env) ''http://other.org/docs'' [''docs'']"
  by (simp_all add: example_env_def)

text \<open>
  On a crawler with the exclude pattern \<open>logout\<close> and the include pattern \<open>docs\<close>: a link
  that matches both, a link that matches neither, and a link to another domain that
  matches the include pattern only.
\<close>

theorem consider_excludes_before_other_checks_witness:
  "match_patterns (env_re example_env) ''http://a/docs/logout'' (exclude_patterns (state scoped_crawler))
   \<and> match_patterns (env_re example_env) ''http://a/docs/logout'' (include_patterns (state scoped_crawler))
   \<and> consider_link example_env 0 ''http://a/'' [''.pdf''] ''http://a/docs/logout'' ''Log out''
        (no_links, scoped_crawler, empty_parser_cache)
     = Inr (no_links, skip_link ''http://a/docs/logout'' ''exclude-pattern'' scoped_crawler,
            empty_parser_cache)
   \<and> consider_link example_env 0 ''http://a/'' [''.pdf''] ''http://a/about'' ''About''
        (no_links, scoped_crawler, empty_parser_cache)
     = Inr (no_links, skip_link ''http://a/about'' ''include-miss'' scoped_crawler,
            empty_parser_cache)
   \<and> consider_link example_env 0 ''http://a/'' [''.pdf''] ''http://other.org/docs'' ''Other''
        (no_links, scoped_crawler, empty_parser_cache)
     = Inr (no_links, skip_link ''http://other.org/docs'' ''off-domain'' scoped_crawler,
            empty_parser_cache)
   \<and> skipped (state (skip_link ''http://other.org/docs'' ''off-domain'' scoped_crawler))
     = [JObj [(''url'', JStr ''http://other.org/docs''), (''reason'', JStr ''off-domain'')]]"
proof -
  have off: "same_registrable_domain example_env ''http://other.org/docs'' ''http://a/'' = Inr False"
    by (simp add: same_registrable_domain_def domain_a domain_other_docs)
  have both: "match_patterns (env_re example_env) ''http://a/docs/logout''
                (exclude_patterns (state scoped_crawler))
            \<and> match_patterns (env_re example_env) ''http://a/docs/logout''
                (include_patterns (state scoped_crawler))"
    using match_logout by (simp add: scoped_crawler_scope del: match_patterns.simps)
  have excluded: "consider_link example_env 0 ''http://a/'' [''.pdf''] ''http://a/docs/logout''
        ''Log out'' (no_links, scoped_crawler, empty_parser_cache)
     = Inr (no_links, skip_link ''http://a/docs/logout'' ''exclude-pattern'' scoped_crawler,
            empty_parser_cache)"
    using consider_excludes_before_other_checks [of "''http://a/docs/logout''" example_env
        "''http://a/''" "''http://a/docs/logout''" scoped_crawler 0 "[''.pdf'']" "''Log out''"
        no_links empty_parser_cache "''exclude-pattern''"]
      normalize_a_docs_logout match_logout
    by (simp add: scoped_crawler_scope del: match_patterns.simps)
  have missed: "consider_link example_env 0 ''http://a/'' [''.pdf''] ''http://a/about''
        ''About'' (no_links, scoped_crawler, empty_parser_cache)
     = Inr (no_links, skip_link ''http://a/about'' ''include-miss'' scoped_crawler,
            empty_parser_cache)"
    using consider_excludes_before_other_checks [of "''http://a/about''" example_env
        "''http://a/''" "''http://a/about''" scoped_crawler 0 "[''.pdf'']" "''About''"
        no_links empty_parser_cache "''include-miss''"]
      normalize_a_about match_logout
    by (simp add: scoped_crawler_scope del: match_patterns.simps)
  have off_domain: "consider_link example_env 0 ''http://a/'' [''.pdf''] ''http://other.org/docs''
        ''Other'' (no_links, scoped_crawler, empty_parser_cache)
     = Inr (no_links, skip_link ''http://other.org/docs'' ''off-domain'' scoped_crawler,
            empty_parser_cache)
     \<and> skipped (state (skip_link ''http://other.org/docs'' ''off-domain'' scoped_crawler))
       = [JObj [(''url'', JStr ''http://other.org/docs''), (''reason'', JStr ''off-domain'')]]"
    using consider_excludes_before_other_checks [of "''http://other.org/docs''" example_env
        "''http://a/''" "''http://other.org/docs''" scoped_crawler 0 "[''.pdf'']" "''Other''"
        no_links empty_parser_cache "''off-domain''"]
      normalize_other_docs match_logout off
    by (simp add: scoped_crawler_scope del: match_patterns.simps)
  from both excluded missed off_domain show ?thesis by blast
qed

text \<open>
  The claim C8 as stated fails for a link to another registrable domain that also matches
  an exclude pattern: with same-domain-only on it is logged once, as \<open>exclude-pattern\<close>,
  and not as \<open>off-domain\<close>.
\<close>

theorem excluded_off_domain_link_is_not_logged_off_domain:
  "same_domain_only (state example_crawler)
   \<and> same_registrable_domain example_env ''http://other.org/logout'' ''http://a/'' = Inr False
   \<and> consider_link example_env 0 ''http://a/'' [''.pdf''] ''http://other.org/logout'' ''Log out''
        (no_links, example_crawler, empty_parser_cache)
     = Inr (no_links, skip_link ''http://other.org/logout'' ''exclude-pattern'' example_crawler,
            empty_parser_cache)
   \<and> skipped (state (skip_link ''http://other.org/logout'' ''exclude-pattern'' example_crawler))
     = [JObj [(''url'', JStr ''http://other.org/logout''), (''reason'', JStr ''exclude-pattern'')]]"
proof -
  have off: "same_registrable_domain example_env ''http://other.org/logout'' ''http://a/'' = Inr False"
    by (simp add: same_registrable_domain_def domain_a domain_other_logout)
  have excluded: "consider_link example_env 0 ''http://a/'' [''.pdf''] ''http://other.org/logout''
        ''Log out'' (no_links, example_crawler, empty_parser_cache)
     = Inr (no_links, skip_link ''http://other.org/logout'' ''exclude-pattern'' example_crawler,
            empty_parser_cache)"
    using match_logout(1)
    by (simp add: consider_link_def normalize_other_logout example_crawler_scope
        del: match_patterns.simps)
  show ?thesis
    by (simp add: off excluded skip_link_skipped example_crawler_scope)
qed

section \<open>Properties of the robots oracle\<close>


lemma map_of_filter_key: "map_of (filter (\<lambda>kv. fst kv \<noteq> k) al) k = None"
  by (induction al) auto









text \<open>
  What \<open>read\<close> leaves after an HTTP error status is a parser, not an exception, and its
  \<open>can_fetch\<close> does not depend on the URL: no after 401, 403 and any code outside 400 to
  499 (a 503, say), yes after the other codes from 400 to 499.
\<close>

lemma read_after_http_error:
  assumes "urlopen robots_url = HttpError code"
  shows "\<exists>policy. robot_file_parser urlopen robots_url = Some policy
           \<and> (\<forall>useragent u. policy useragent u
                 = (code \<noteq> 401 \<and> code \<noteq> 403 \<and> 400 \<le> code \<and> code < 500))"
  using assms by (simp add: robot_file_parser_def)

lemma read_raises:
  "robot_file_parser urlopen robots_url = None \<longleftrightarrow> urlopen robots_url = ReadRaises"
  by (simp add: robot_file_parser_def split: robots_response.splits)


text \<open>The example URLs, evaluated.\<close>

lemma parse_a_x:
  "py_urlparse (\<lambda>h. True) ''http://a/x'' s0 =
   Inr \<lparr>u_scheme = ''http'', u_netloc = ''a'', u_path = ''/x'', u_params = [],
        u_query = [], u_fragment = []\<rparr>"
  by (simp add: urllib_eval)

lemma parse_a_y:
  "py_urlparse (\<lambda>h. True) ''http://a/y'' s0 =
   Inr \<lparr>u_scheme = ''http'', u_netloc = ''a'', u_path = ''/y'', u_params = [],
        u_query = [], u_fragment = []\<rparr>"
  by (simp add: urllib_eval)



lemma parse_c_root:
  "py_urlparse (\<lambda>h. True) ''http://c/'' s0 =
   Inr \<lparr>u_scheme = ''http'', u_netloc = ''c'', u_path = ''/'', u_params = [],
        u_query = [], u_fragment = []\<rparr>"
  by (simp add: urllib_eval)


lemma parse_a_bare:
  "py_urlparse (\<lambda>h. True) ''http://a'' s0 =
   Inr \<lparr>u_scheme = ''http'', u_netloc = ''a'', u_path = [], u_params = [],
        u_query = [], u_fragment = []\<rparr>"
  by (simp add: urllib_eval)


lemma parse_c_bare:
  "py_urlparse (\<lambda>h. True) ''http://c'' s0 =
   Inr \<lparr>u_scheme = ''http'', u_netloc = ''c'', u_path = [], u_params = [],
        u_query = [], u_fragment = []\<rparr>"
  by (simp add: urllib_eval)


lemma parse_robots_path:
  "py_urlparse (\<lambda>h. True) ''/robots.txt'' ''http'' =
   Inr \<lparr>u_scheme = ''http'', u_netloc = [], u_path = ''/robots.txt'', u_params = [],
        u_query = [], u_fragment = []\<rparr>"
  by (simp add: urllib_eval)

lemma robots_url_a: "py_urljoin (\<lambda>h. True) ''http://a'' ''/robots.txt'' = Inr ''http://a/robots.txt''"
  by (simp add: py_urljoin_def parse_a_bare parse_robots_path py_urlunparse_def uses_netloc_def
      uses_relative_def Let_def)


lemma robots_url_c: "py_urljoin (\<lambda>h. True) ''http://c'' ''/robots.txt'' = Inr ''http://c/robots.txt''"
  by (simp add: py_urljoin_def parse_c_bare parse_robots_path py_urlunparse_def uses_netloc_def
      uses_relative_def Let_def)


lemma example_env_fields:
  "urlparse (env_lib example_env) = (\<lambda>u. py_urlparse (\<lambda>h. True) u [])"
  "urljoin (env_lib example_env) = py_urljoin (\<lambda>h. True)"
  "env_fetch_robots example_env = robot_file_parser example_urlopen"
  by (simp_all add: example_env_def cpython_urllib_def)

lemma example_robots:
  "robot_file_parser example_urlopen ''http://a/robots.txt'' = None"
  "robot_file_parser example_urlopen ''http://h/robots.txt'' = None"
  "robot_file_parser example_urlopen ''http://b/robots.txt'' = Some no_private"
  by (simp_all add: robot_file_parser_def example_urlopen_def)


lemma robots_on_fields:
  "respect robots_on"
  "user_agent robots_on = ''SimpleFileScraper/1.0''"
  "\<not> respect (RobotsHandler ua False)"
  by (simp_all add: robots_on_def RobotsHandler_def)



text \<open>
  An HTTP error status is no fetch failure in the sense of the claim: host \<open>c\<close> answers
  503, \<open>read\<close> returns, and \<open>is_allowed\<close> says no.
\<close>

lemma http_503_is_not_fail_open:
  "is_allowed example_env 0 robots_on ''http://c/'' empty_parser_cache
   = Inr (False,
          \<lparr>cache_entries = [((0, ''http://c/''),
                              robot_file_parser example_urlopen ''http://c/robots.txt'')],
           robots_fetched = [''http://c/robots.txt'']\<rparr>)"
  by (simp add: is_allowed_def parser_for_def empty_parser_cache_def robots_on_fields
      example_env_fields parse_c_root robots_url_c robot_file_parser_def example_urlopen_def
      Let_def)

text \<open>
  The cache is keyed by the URL that was asked about, so two URLs of one scheme and host
  do not share an entry, and \<open>robots.txt\<close> is read once for each of them.
\<close>

lemma same_host_urls_are_fetched_separately:
  "(case is_allowed example_env 0 robots_on ''http://a/x'' empty_parser_cache of
      Inl e \<Rightarrow> None
    | Inr (b1, m1) \<Rightarrow>
        (case is_allowed example_env 0 robots_on ''http://a/y'' m1 of
           Inl e \<Rightarrow> None
         | Inr (b2, m2) \<Rightarrow> Some (robots_fetched m2, map fst (cache_entries m2))))
   = Some ([''http://a/robots.txt'', ''http://a/robots.txt''],
           [(0, ''http://a/x''), (0, ''http://a/y'')])"
  by (simp add: is_allowed_def parser_for_def empty_parser_cache_def robots_on_fields
      example_env_fields example_robots parse_a_x parse_a_y robots_url_a)



section \<open>Properties of URL normalisation\<close>

text \<open>
  Two parts of claim C5 hold. A reference that starts with \<open>mailto:\<close> or \<open>javascript:\<close>
  (after stripping blanks) yields no result, whatever the URL library does. And with the
  model of \<open>urllib.parse\<close> no result contains a \<open>#\<close>: the parsed components hold none, and
  the fragment is cleared before the URL is put together again.
\<close>

lemma normalize_url_pseudo_scheme:
  assumes "startswith (strip href) ''mailto:'' \<or> startswith (strip href) ''javascript:''"
  shows "normalize_url L base href = Inr None"
  using assms by (simp add: normalize_url_def Let_def)

lemma set_rstrip_char: "set (rstrip_char c s) \<subseteq> set s"
proof -
  have "set (dropWhile (\<lambda>x. x = c) (rev s)) \<subseteq> set (rev s)"
    by (rule set_dropWhileD [THEN subsetI]) 
  then show ?thesis by (simp add: rstrip_char_def)
qed

lemma set_split_once:
  "set (fst (split_once c s)) \<subseteq> set s" "set (snd (split_once c s)) \<subseteq> set s"
  "c \<notin> set (fst (split_once c s))"
proof -
  show "set (fst (split_once c s)) \<subseteq> set s"
    by (auto simp: split_once_def dest: set_takeWhileD)
  show "set (snd (split_once c s)) \<subseteq> set s"
    by (auto simp: split_once_def dest: in_set_dropD set_dropWhileD)
  show "c \<notin> set (fst (split_once c s))"
    by (auto simp: split_once_def dest: set_takeWhileD)
qed

lemma urlsplit_no_hash:
  assumes "urlsplit ok url s0 = Inr (sch, nl, p, q, f)"
  shows "CHR ''#'' \<notin> set nl \<and> CHR ''#'' \<notin> set p \<and> CHR ''#'' \<notin> set q"
proof -
  define url1 where "url1 = filter (\<lambda>c. \<not> unsafe_url_byte c) (dropWhile c0_control_or_space url)"
  define pre where "pre = takeWhile (\<lambda>c. c \<noteq> CHR '':'') url1"
  define has_scheme where "has_scheme = (CHR '':'' \<in> set url1 \<and> pre \<noteq> [] \<and> ascii_alpha (hd pre)
                        \<and> list_all scheme_char pre)"
  define url2 where "url2 = (if has_scheme then snd (split_once CHR '':'' url1) else url1)"
  define is_delim where "is_delim = (\<lambda>c. c = CHR ''/'' \<or> c = CHR ''?'' \<or> c = CHR ''#'')"
  define has_netloc where "has_netloc = (take 2 url2 = ''//'')"
  define url3 where "url3 = (if has_netloc then dropWhile (\<lambda>c. \<not> is_delim c) (drop 2 url2) else url2)"
  define url4 where "url4 = (if CHR ''#'' \<in> set url3 then fst (split_once CHR ''#'' url3) else url3)"
  have nl: "nl = (if has_netloc then takeWhile (\<lambda>c. \<not> is_delim c) (drop 2 url2) else [])"
    and q: "q = (if CHR ''?'' \<in> set url4 then snd (split_once CHR ''?'' url4) else [])"
    and p: "p = (if CHR ''?'' \<in> set url4 then fst (split_once CHR ''?'' url4) else url4)"
    using assms
    unfolding urlsplit_def Let_def url1_def [symmetric] pre_def [symmetric]
      has_scheme_def [symmetric] url2_def [symmetric] is_delim_def [symmetric]
      has_netloc_def [symmetric] url3_def [symmetric] url4_def [symmetric]
    by (auto split: if_splits)
  have h4: "CHR ''#'' \<notin> set url4"
    using set_split_once(3) [of "CHR ''#''" url3] by (simp add: url4_def)
  have "CHR ''#'' \<notin> set nl"
    by (auto simp: nl is_delim_def dest: set_takeWhileD)
  moreover have "CHR ''#'' \<notin> set p"
    using h4 set_split_once(1) [of "CHR ''?''" url4] by (auto simp: p)
  moreover have "CHR ''#'' \<notin> set q"
    using h4 set_split_once(2) [of "CHR ''?''" url4] by (auto simp: q)
  ultimately show ?thesis by simp
qed

lemma set_splitparams:
  "set (fst (splitparams p)) \<subseteq> set p" "set (snd (splitparams p)) \<subseteq> set p"
proof -
  let ?seg = "rev (takeWhile (\<lambda>c. c \<noteq> CHR ''/'') (rev p))"
  have seg: "set ?seg \<subseteq> set p"
    by (auto dest: set_takeWhileD)
  have pre: "set (take (length p - length ?seg) p) \<subseteq> set p"
    by (rule set_take_subset)
  show "set (fst (splitparams p)) \<subseteq> set p"
    using seg pre set_split_once(1) [of "CHR '';''" ?seg] set_split_once(1) [of "CHR '';''" p]
    by (auto simp: splitparams_def Let_def)
  show "set (snd (splitparams p)) \<subseteq> set p"
    using seg set_split_once(2) [of "CHR '';''" ?seg] set_split_once(2) [of "CHR '';''" p]
    by (auto simp: splitparams_def Let_def)
qed

lemma py_urlparse_no_hash:
  assumes "py_urlparse ok url s0 = Inr r"
  shows "CHR ''#'' \<notin> set (u_netloc r) \<and> CHR ''#'' \<notin> set (u_path r)
       \<and> CHR ''#'' \<notin> set (u_params r) \<and> CHR ''#'' \<notin> set (u_query r)"
proof -
  from assms obtain sch nl p q f where
    s: "urlsplit ok url s0 = Inr (sch, nl, p, q, f)"
    and r: "r = (let sp = (if sch \<in> set uses_params \<and> CHR '';'' \<in> set p then splitparams p else (p, []))
             in \<lparr>u_scheme = sch, u_netloc = nl, u_path = fst sp, u_params = snd sp,
                  u_query = q, u_fragment = f\<rparr>)"
    by (auto simp: py_urlparse_def bind_result_eq_Inr Let_def)
  from urlsplit_no_hash [OF s] set_splitparams [of p] show ?thesis
    by (auto simp: r Let_def)
qed

lemma py_urlunparse_no_hash:
  assumes "u_fragment r = []" "CHR ''#'' \<notin> set (u_scheme r)" "CHR ''#'' \<notin> set (u_netloc r)"
    "CHR ''#'' \<notin> set (u_path r)" "CHR ''#'' \<notin> set (u_params r)" "CHR ''#'' \<notin> set (u_query r)"
  shows "CHR ''#'' \<notin> set (py_urlunparse r)"
  using assms by (auto simp: py_urlunparse_def Let_def)

lemma cpython_normalize_url_no_fragment:
  assumes "normalize_url (cpython_urllib ok) base href = Inr (Some u)"
  shows "CHR ''#'' \<notin> set u"
proof -
  from assms obtain joined parsed where
    p: "py_urlparse ok joined [] = Inr parsed"
    and sch: "u_scheme parsed = ''http'' \<or> u_scheme parsed = ''https''"
    and u: "u = (if u_path parsed \<noteq> ''/''
                 then rstrip_char CHR ''/'' (py_urlunparse (parsed\<lparr>u_fragment := []\<rparr>))
                 else py_urlunparse (parsed\<lparr>u_fragment := []\<rparr>))"
    by (auto simp: normalize_url_def cpython_urllib_def bind_result_eq_Inr Let_def
        split: if_splits)
  have "CHR ''#'' \<notin> set (u_scheme (parsed\<lparr>u_fragment := []\<rparr>))"
    using sch by auto
  with py_urlparse_no_hash [OF p]
  have "CHR ''#'' \<notin> set (py_urlunparse (parsed\<lparr>u_fragment := []\<rparr>))"
    by (intro py_urlunparse_no_hash) simp_all
  then show ?thesis
    using set_rstrip_char [of "CHR ''/''" "py_urlunparse (parsed\<lparr>u_fragment := []\<rparr>)"]
    by (auto simp: u)
qed

text \<open>The example URLs, evaluated.\<close>

lemma parse_query_slash:
  "py_urlparse (\<lambda>h. True) ''http://example.com/a?/'' s0 =
   Inr \<lparr>u_scheme = ''http'', u_netloc = ''example.com'', u_path = ''/a'', u_params = [],
        u_query = ''/'', u_fragment = []\<rparr>"
  by (simp add: urllib_eval)

lemma parse_query_empty:
  "py_urlparse (\<lambda>h. True) ''http://example.com/a?'' s0 =
   Inr \<lparr>u_scheme = ''http'', u_netloc = ''example.com'', u_path = ''/a'', u_params = [],
        u_query = [], u_fragment = []\<rparr>"
  by (simp add: urllib_eval)

lemma parse_example_root:
  "py_urlparse (\<lambda>h. True) ''http://example.com/'' s0 =
   Inr \<lparr>u_scheme = ''http'', u_netloc = ''example.com'', u_path = ''/'', u_params = [],
        u_query = [], u_fragment = []\<rparr>"
  by (simp add: urllib_eval)

lemma parse_example_a:
  "py_urlparse (\<lambda>h. True) ''http://example.com/a'' s0 =
   Inr \<lparr>u_scheme = ''http'', u_netloc = ''example.com'', u_path = ''/a'', u_params = [],
        u_query = [], u_fragment = []\<rparr>"
  by (simp add: urllib_eval)

lemma join_query_slash:
  "py_urljoin (\<lambda>h. True) ''http://example.com/'' ''http://example.com/a?/''
   = Inr ''http://example.com/a?/''"
  by (simp add: py_urljoin_def parse_query_slash parse_example_root py_urlunparse_def
      uses_netloc_def uses_relative_def Let_def)

lemma join_query_empty:
  "py_urljoin (\<lambda>h. True) ''http://example.com/'' ''http://example.com/a?''
   = Inr ''http://example.com/a''"
  by (simp add: py_urljoin_def parse_query_empty parse_example_root py_urlunparse_def
      uses_netloc_def uses_relative_def Let_def)

text \<open>
  Claim C5, the failing input. \<open>rstrip('/')\<close> is applied to the whole URL and not to its
  path. For the reference \<open>http://example.com/a?/\<close> it removes the slash that is the
  query, and the result \<open>http://example.com/a?\<close> is not canonical: normalising it again
  drops the empty query and gives \<open>http://example.com/a\<close>.
\<close>

theorem normalize_url_not_idempotent_after_query_slash:
  "normalize_url (cpython_urllib (\<lambda>h. True)) ''http://example.com/'' ''http://example.com/a?/''
     = Inr (Some ''http://example.com/a?'')
   \<and> normalize_url (cpython_urllib (\<lambda>h. True)) ''http://example.com/'' ''http://example.com/a?''
     = Inr (Some ''http://example.com/a'')"
  by (simp add: normalize_url_def cpython_urllib_def join_query_slash join_query_empty
      parse_query_slash parse_example_a strip_def is_space_def startswith_def
      py_urlunparse_def uses_netloc_def rstrip_char_def Let_def)

section \<open>Properties of asset deduplication\<close>

text \<open>
  Two pages link to one PDF. On the first schedule below the first page's download has
  finished before the second page is looked at, and the second page gets the cached
  file. On the second schedule the second page is looked at while the download is in
  flight and has not run yet, becomes a waiter and is served when the download ends. On
  both, one file is written, one \<open>GET\<close> is sent, the manifest counts two pages and the
  second attachment is marked reused.
\<close>

lemma two_pages_one_after_the_other:
  "outcome ''http://a/docs/files/sample.pdf''
     (run pdf_net ''t''
        [Sched 0, Sched 0, Sched 0, Download 0, DownloadDone 0, Sched 1, Sched 1]
        two_pages_config)
   = Some ([''out/a/docs/page.html/test-files/sample.pdf''],
           [''http://a/docs/files/sample.pdf''],
           [(''http://a/docs/page.html'', False), (''http://a/docs/page2.html'', True)],
           JInt 2)"
  by code_simp

lemma two_pages_second_waits:
  "outcome ''http://a/docs/files/sample.pdf''
     (run pdf_net ''t''
        [Sched 0, Sched 0, Sched 0, Sched 1, Sched 1, Download 0, DownloadDone 0]
        two_pages_config)
   = Some ([''out/a/docs/page.html/test-files/sample.pdf''],
           [''http://a/docs/files/sample.pdf''],
           [(''http://a/docs/page.html'', False), (''http://a/docs/page2.html'', True)],
           JInt 2)"
  by code_simp

text \<open>
  A page that becomes a waiter after the download has served its waiters, and before the
  callback \<open>_download_done\<close> has taken the future out of \<open>_asset_inflight\<close>, is served by
  nobody: one file is written and one \<open>GET\<close> is sent, but the second page never gets the
  attachment and the manifest counts one page.
\<close>

lemma two_pages_waiter_after_the_drain:
  "outcome ''http://a/docs/files/sample.pdf''
     (run pdf_net ''t''
        [Sched 0, Sched 0, Sched 0, Sched 1, Download 0, Sched 1, DownloadDone 0]
        two_pages_config)
   = Some ([''out/a/docs/page.html/test-files/sample.pdf''],
           [''http://a/docs/files/sample.pdf''],
           [(''http://a/docs/page.html'', False)],
           JInt 1)"
  by code_simp

text \<open>
  The second locked block of \<open>_schedule_asset_download\<close> counts the download as active
  and leaves \<open>_asset_inflight\<close> as it is. So when nothing is in flight for an asset, two
  pages that do not have it yet both pass that block, one after the other, and both go
  on to submit a download.
\<close>

lemma schedule_claim_leaves_inflight:
  "asset_inflight (sys_crawler (snd (schedule_claim t y))) = asset_inflight (sys_crawler y)"
  by (simp add: schedule_claim_def Let_def split: sum.splits)

lemma schedule_claim_claims:
  assumes "task_page t \<notin> set (waiters_of (sys_crawler y) (task_asset_url t))"
    and "map_of (asset_inflight (sys_crawler y)) (task_asset_url t) = None"
    and "get_page (task_page t) (sys_crawler y) = Inr r"
    and "\<not> has_asset (task_asset_url t) r"
  shows "schedule_claim t y
         = (AtSubmit, y\<lparr>sys_crawler := (sys_crawler y)
                          \<lparr>active_downloads := active_downloads (sys_crawler y) + 1\<rparr>\<rparr>)"
  using assms by (simp add: schedule_claim_def Let_def)

lemma two_claims_both_succeed:
  assumes "task_page t1 \<notin> set (waiters_of (sys_crawler y) a)"
    and "task_page t2 \<notin> set (waiters_of (sys_crawler y) a)"
    and "task_asset_url t1 = a" "task_asset_url t2 = a"
    and "map_of (asset_inflight (sys_crawler y)) a = None"
    and "get_page (task_page t1) (sys_crawler y) = Inr r1" "\<not> has_asset a r1"
    and "get_page (task_page t2) (sys_crawler y) = Inr r2" "\<not> has_asset a r2"
  shows "fst (schedule_claim t1 y) = AtSubmit
       \<and> fst (schedule_claim t2 (snd (schedule_claim t1 y))) = AtSubmit
       \<and> active_downloads (sys_crawler (snd (schedule_claim t2 (snd (schedule_claim t1 y)))))
         = active_downloads (sys_crawler y) + 2"
proof -
  let ?y1 = "y\<lparr>sys_crawler := (sys_crawler y)
                  \<lparr>active_downloads := active_downloads (sys_crawler y) + 1\<rparr>\<rparr>"
  have first: "schedule_claim t1 y = (AtSubmit, ?y1)"
    using assms by (intro schedule_claim_claims [where r = r1]) simp_all
  have second: "schedule_claim t2 ?y1
        = (AtSubmit, ?y1\<lparr>sys_crawler := (sys_crawler ?y1)
                          \<lparr>active_downloads := active_downloads (sys_crawler ?y1) + 1\<rparr>\<rparr>)"
    using assms by (intro schedule_claim_claims [where r = r2]) (simp_all add: waiters_of_def get_page_def)
  show ?thesis unfolding first snd_conv fst_conv second by simp
qed

text \<open>
  Claim C1, the failing schedule. \<open>_schedule_asset_download\<close> looks for a download in
  flight in its second locked block and enters its own future into \<open>_asset_inflight\<close>
  only in the third, after \<open>submit\<close>. When the second page's thread runs its first two
  blocks in between, it sees nothing in flight and submits a download of its own: two
  \<open>GET\<close> requests are sent, two files are written and no attachment is marked reused.
\<close>

theorem two_pages_claim_before_inflight_is_set:
  "outcome ''http://a/docs/files/sample.pdf''
     (run pdf_net ''t''
        [Sched 0, Sched 0, Sched 1, Sched 1, Sched 0, Sched 1,
         Download 0, Download 1, DownloadDone 0, DownloadDone 1]
        two_pages_config)
   = Some ([''out/a/docs/page.html/test-files/sample.pdf'',
            ''out/a/docs/page2.html/second-page/sample.pdf''],
           [''http://a/docs/files/sample.pdf'', ''http://a/docs/files/sample.pdf''],
           [(''http://a/docs/page.html'', False), (''http://a/docs/page2.html'', False)],
           JInt 2)"
  by code_simp

end
